theory Spec2Isabelle
  imports Main "HOL-Library.Char_ord" "HOL-Library.List_Lexorder"
begin

section \<open>Strings and the message chunker\<close>

text \<open>
  A Go string is a sequence of bytes and \<open>len\<close> counts bytes, so it is modelled by
  \<^typ>\<open>string\<close>, a list of 8-bit characters, with \<^const>\<open>length\<close> for \<open>len\<close>.
\<close>

definition newline :: char where
  "newline = CHR 0x0A"

text \<open>
  \<open>strings.Split(s, sep)\<close> of the Go standard library for a separator of one byte:
  the pieces of \<open>s\<close> between the occurrences of \<open>sep\<close>. The result is never empty;
  the empty string splits into one empty piece.
\<close>

fun Split :: "string \<Rightarrow> char \<Rightarrow> string list" where
  "Split [] sep = [[]]"
| "Split (c # cs) sep =
     (if c = sep then [] # Split cs sep
      else (c # hd (Split cs sep)) # tl (Split cs sep))"

text \<open>\<open>const maxMessageTextLength = 4096\<close>\<close>

definition maxMessageTextLength :: nat where
  "maxMessageTextLength = 4096"

text \<open>
  The loop of \<open>splitStringIntoChunks\<close> over the lines, with the variables \<open>chunk\<close> and
  \<open>chunks\<close> of the source as arguments:
  \<^verbatim>\<open>
  for _, s := range splitted {
      if len(chunk+"\n"+s) > maxMessageTextLength {
          chunks = append(chunks, chunk)
          chunk = ""
      }
      chunk = chunk + "\n" + s
  }
  chunks = append(chunks, chunk)
  \<close>
\<close>

fun chunkLoop :: "string list \<Rightarrow> string \<Rightarrow> string list \<Rightarrow> string list" where
  "chunkLoop [] chunk chunks = chunks @ [chunk]"
| "chunkLoop (s # ss) chunk chunks =
     (if length (chunk @ [newline] @ s) > maxMessageTextLength
      then chunkLoop ss ([] @ [newline] @ s) (chunks @ [chunk])
      else chunkLoop ss (chunk @ [newline] @ s) chunks)"

definition splitStringIntoChunks :: "string \<Rightarrow> string list" where
  "splitStringIntoChunks text = chunkLoop (Split text newline) [] []"

text \<open>
  Joining chunks the way the specification words it: one newline is put back at every
  split point, that is between two consecutive chunks.
\<close>

fun rejoinChunks :: "string list \<Rightarrow> string" where
  "rejoinChunks [] = []"
| "rejoinChunks [c] = c"
| "rejoinChunks (c # cs) = c @ [newline] @ rejoinChunks cs"

text \<open>The text of a chunk that holds the lines \<open>g\<close>: every line behind its newline.\<close>

definition joinLines :: "string list \<Rightarrow> string" where
  "joinLines g = concat (map (\<lambda>s. newline # s) g)"

section \<open>Data model\<close>

text \<open>A Go \<open>error\<close> value, by its message; \<open>nil\<close> is \<^const>\<open>None\<close> of an option.\<close>

datatype error = Error string

fun errorString :: "error \<Rightarrow> string" where
  "errorString (Error s) = s"

text \<open>\<open>fmt.Errorf(prefix + "%s", err)\<close>\<close>

definition Errorf :: "string \<Rightarrow> error \<Rightarrow> error" where
  "Errorf prefix err = Error (prefix @ errorString err)"

text \<open>
  Reading a Go \<open>map[string]string\<close> (also a \<open>nil\<close> one) at a key it does not hold
  gives the empty string.
\<close>

definition mapIndex :: "(string \<rightharpoonup> string) \<Rightarrow> string \<Rightarrow> string" where
  "mapIndex m k = (case m k of None \<Rightarrow> [] | Some v \<Rightarrow> v)"

text \<open>\<open>type Callback struct\<close>: the intent stored for a button.\<close>

record Callback =
  Type :: string
  Data :: "string \<rightharpoonup> string"

text \<open>The inline keyboard of the chat library: buttons with a text and callback data.\<close>

record InlineKeyboardButton =
  Text :: string
  CallbackData :: string

definition NewInlineKeyboardButtonData :: "string \<Rightarrow> string \<Rightarrow> InlineKeyboardButton" where
  "NewInlineKeyboardButtonData text data = \<lparr>Text = text, CallbackData = data\<rparr>"

record InlineKeyboardMarkup =
  InlineKeyboard :: "InlineKeyboardButton list list"

text \<open>
  The values of \<open>tgbotapi.Chattable\<close> that \<open>sendMessage\<close> tells apart, with the fields
  it reads: chat id, message id, text, parse mode and reply markup. Every other type of
  the interface is \<open>OtherChattable\<close> with the name of its type. Chat and message ids
  are only passed on, so they are plain integers.
\<close>

datatype Chattable =
    MessageConfig int string string "InlineKeyboardMarkup option"
  | EditMessageTextConfig int int string string "InlineKeyboardMarkup option"
  | DeleteMessageConfig int int
  | EditMessageReplyMarkupConfig int int "InlineKeyboardMarkup option"
  | OtherChattable string

definition ModeHTML :: string where
  "ModeHTML = ''HTML''"

definition NewMessage :: "int \<Rightarrow> string \<Rightarrow> Chattable" where
  "NewMessage chatID text = MessageConfig chatID text [] None"

text \<open>
  What the chat platform answers to one call of \<open>BotAPI.Send\<close>: success, a flood error
  with its \<open>RetryAfter\<close> seconds, or another error.
\<close>

datatype response = Accepted | FloodError int error | Rejected error

text \<open>Records of the two monitoring services, with the fields the bot reads.\<close>

datatype GettableAlert = GettableAlert "(string \<times> string) list" "(string \<times> string) list"

record GettableSilence =
  ID :: string
  State :: string

record ActiveTarget =
  Labels :: "string \<rightharpoonup> string"
  ScrapeURL :: string

text \<open>\<open>template.Data\<close> of the alerting service: the webhook payload.\<close>

record AlertData =
  Receiver :: string
  Status :: string
  GroupLabels :: "string \<rightharpoonup> string"

text \<open>The values handed to \<open>applyTemplate\<close> as \<open>interface{}\<close>.\<close>

datatype TemplateInput =
    InAlerts "GettableAlert list"
  | InSilences "GettableSilence list"
  | InData AlertData

text \<open>A line of the log: the format and the arguments of \<open>log.Printf\<close>, or \<open>log.Println\<close>.\<close>

datatype LogArg = S string | I int | V ActiveTarget

datatype LogEntry = Printf string "LogArg list" | Println string

text \<open>The fields of the global \<open>cfg\<close> that the modelled functions read.\<close>

record config =
  KeyboardRows :: int
  WebhookAlertsTemplatePath :: string
  GettableAlertsTemplatePath :: string
  SilencesTemplatePath :: string
  Users :: "string list"
  ButtonPrefixOK :: string
  ButtonPrefixFail :: string
  SendMessageRetryCount :: int

text \<open>
  Everything outside the repository that the bot calls: the chat platform, the alerting and
  the monitoring service, and the library functions for identifiers, JSON, number parsing
  and templates. \<open>botSend k m\<close> is the answer to the \<open>k\<close>-th call of \<open>BotAPI.Send\<close>
  (counted from 0) when it carries \<open>m\<close>, and \<open>ksuidNew k\<close> the \<open>k\<close>-th identifier of
  \<open>ksuid.New().String()\<close>. A service query is a function of its arguments.
  \<open>sortSlice\<close> is \<open>sort.Slice\<close> with the comparison of \<open>newTargetsKB\<close>, the
  \<open>instance\<close> labels byte by byte; the library does not say in which order it leaves
  targets with equal labels, so the sort is taken from the surroundings.
\<close>

record Services =
  botSend :: "nat \<Rightarrow> Chattable \<Rightarrow> response"
  ksuidNew :: "nat \<Rightarrow> string"
  GetAlerts :: "string list \<Rightarrow> error + GettableAlert list"
  GetSilences :: "error + GettableSilence list"
  GetStatus :: "error + string \<times> string"
  LabelValues :: "string \<Rightarrow> error + string list"
  Targets :: "error + ActiveTarget list"
  Buildinfo :: "error + string"
  Runtimeinfo :: "error + string"
  botUptime :: string
  versionString :: string
  MarshalIndentAlerts :: "GettableAlert list \<Rightarrow> error + string"
  MarshalIndentSilences :: "GettableSilence list \<Rightarrow> error + string"
  MarshalTarget :: "ActiveTarget \<Rightarrow> error + string"
  Unmarshal :: "string \<Rightarrow> error + AlertData"
  ParseInt :: "string \<Rightarrow> error + int"
  ParseFiles :: "string \<Rightarrow> error + string"
  Execute :: "string \<Rightarrow> TemplateInput \<Rightarrow> error + string"
  sortSlice :: "ActiveTarget list \<Rightarrow> ActiveTarget list"

text \<open>
  The state the bot changes: the cache of \<open>TelegramBot\<close>, the number of identifiers drawn
  so far, the calls of \<open>BotAPI.Send\<close> made so far (oldest first) and the log.
\<close>

record BotState =
  Cache :: "string \<rightharpoonup> Callback"
  ksuids :: nat
  sent :: "Chattable list"
  logged :: "LogEntry list"

definition logPrintf :: "string \<Rightarrow> LogArg list \<Rightarrow> BotState \<Rightarrow> BotState" where
  "logPrintf format args st = st\<lparr>logged := logged st @ [Printf format args]\<rparr>"


section \<open>Session store\<close>

text \<open>
  The cache of the library \<open>ttlcache\<close>, as a finite map from keys to values. \<open>main\<close>
  makes it with \<open>ttlcache.NewCache()\<close> and sets no time to live, so an entry stays until
  it is removed. \<open>Get\<close> of a missing key is the error \<open>ErrNotFound\<close>.
\<close>

definition ErrNotFound :: error where
  "ErrNotFound = Error ''key not found''"

definition cacheSet :: "(string \<rightharpoonup> Callback) \<Rightarrow> string \<Rightarrow> Callback \<Rightarrow> (string \<rightharpoonup> Callback)" where
  "cacheSet c key v = c(key \<mapsto> v)"

definition cacheGet :: "(string \<rightharpoonup> Callback) \<Rightarrow> string \<Rightarrow> error + Callback" where
  "cacheGet c key = (case c key of None \<Rightarrow> Inl ErrNotFound | Some v \<Rightarrow> Inr v)"

definition cacheRemove :: "(string \<rightharpoonup> Callback) \<Rightarrow> string \<Rightarrow> (string \<rightharpoonup> Callback)" where
  "cacheRemove c key = c(key := None)"

text \<open>
  \<open>cacheID := ksuid.New().String(); ...; bot.Cache.Set(cacheID, newCallback)\<close>: a new
  identifier is drawn and the callback stored under it.
\<close>

definition newCacheEntry :: "Services \<Rightarrow> Callback \<Rightarrow> BotState \<Rightarrow> string \<times> BotState" where
  "newCacheEntry env newCallback st =
     (let cacheID = ksuidNew env (ksuids st)
      in (cacheID, st\<lparr>ksuids := Suc (ksuids st),
                       Cache := cacheSet (Cache st) cacheID newCallback\<rparr>))"

text \<open>
  The start of the callback branch of \<open>handleUpdates\<close>: the callback data of the update
  is looked up in the cache and, when found, removed.
  \<^verbatim>\<open>
  cacheData, err := bot.Cache.Get(update.CallbackQuery.Data)
  if err != nil {
      log.Printf("error getting callback data from cache: %s", err)
      continue
  }
  bot.Cache.Remove(update.CallbackQuery.Data)
  \<close>
\<close>

definition takeCallback :: "string \<Rightarrow> BotState \<Rightarrow> (error + Callback) \<times> BotState" where
  "takeCallback callbackData st =
     (case cacheGet (Cache st) callbackData of
        Inl err \<Rightarrow>
          (Inl err, logPrintf ''error getting callback data from cache: %s'' [S (errorString err)] st)
      | Inr cacheData \<Rightarrow>
          (Inr cacheData, st\<lparr>Cache := cacheRemove (Cache st) callbackData\<rparr>))"

section \<open>Message dispatcher\<close>

text \<open>
  The closure \<open>send\<close> of \<open>sendMessage\<close>. \<open>sendLoop\<close> is its loop with the iterations
  left and the value of \<open>err\<close>; the sleep before a retry is not modelled.
  \<^verbatim>\<open>
  for i := 0; i < cfg.SendMessageRetryCount; i++ {
      _, err = bot.BotAPI.Send(m)
      if err != nil {
          e, ok := err.(telebot.FloodError)
          if !ok { break }
          log.Printf("got FloodError, retrying in %d", e.RetryAfter)
          time.Sleep(time.Second * time.Duration(e.RetryAfter))
          continue
      }
      break
  }
  return
  \<close>
\<close>

fun sendLoop :: "Services \<Rightarrow> Chattable \<Rightarrow> nat \<Rightarrow> error option \<Rightarrow> BotState \<Rightarrow> error option \<times> BotState" where
  "sendLoop env m 0 err st = (err, st)"
| "sendLoop env m (Suc n) err st =
     (let st1 = st\<lparr>sent := sent st @ [m]\<rparr> in
      case botSend env (length (sent st)) m of
        Accepted \<Rightarrow> (None, st1)
      | Rejected e \<Rightarrow> (Some e, st1)
      | FloodError retryAfter e \<Rightarrow>
          sendLoop env m n (Some e) (logPrintf ''got FloodError, retrying in %d'' [I retryAfter] st1))"

definition send :: "Services \<Rightarrow> config \<Rightarrow> Chattable \<Rightarrow> BotState \<Rightarrow> error option \<times> BotState" where
  "send env cfg m st = sendLoop env m (nat (SendMessageRetryCount cfg)) None st"

text \<open>
  The loop over the chunks, in both branches of \<open>sendMessage\<close> that send new messages:
  the reply markup goes to the last chunk only (\<open>i == len(chunks)-1\<close>), and the first
  error ends the dispatch.
\<close>

fun sendChunks :: "Services \<Rightarrow> config \<Rightarrow> int \<Rightarrow> string \<Rightarrow> InlineKeyboardMarkup option \<Rightarrow>
    string list \<Rightarrow> BotState \<Rightarrow> error option \<times> BotState" where
  "sendChunks env cfg chatID parseMode replyMarkup [] st = (None, st)"
| "sendChunks env cfg chatID parseMode replyMarkup (c # cs) st =
     (let msg = MessageConfig chatID c parseMode (if cs = [] then replyMarkup else None) in
      case send env cfg msg st of
        (Some err, st') \<Rightarrow> (Some err, st')
      | (None, st') \<Rightarrow> sendChunks env cfg chatID parseMode replyMarkup cs st')"

fun sendMessage :: "Services \<Rightarrow> config \<Rightarrow> Chattable \<Rightarrow> BotState \<Rightarrow> error option \<times> BotState" where
  "sendMessage env cfg (MessageConfig chatID text parseMode replyMarkup) st =
     sendChunks env cfg chatID parseMode replyMarkup (splitStringIntoChunks text) st"
| "sendMessage env cfg (EditMessageTextConfig chatID messageID text parseMode replyMarkup) st =
     (let chunks = splitStringIntoChunks text in
      if length chunks > 1 then
        (case send env cfg (DeleteMessageConfig chatID messageID) st of
           (Some err, st') \<Rightarrow> (Some err, st')
         | (None, st') \<Rightarrow> sendChunks env cfg chatID parseMode replyMarkup chunks st')
      else send env cfg (EditMessageTextConfig chatID messageID text parseMode replyMarkup) st)"
| "sendMessage env cfg (DeleteMessageConfig chatID messageID) st =
     send env cfg (DeleteMessageConfig chatID messageID) st"
| "sendMessage env cfg (EditMessageReplyMarkupConfig chatID messageID replyMarkup) st =
     send env cfg (EditMessageReplyMarkupConfig chatID messageID replyMarkup) st"
| "sendMessage env cfg (OtherChattable typeName) st =
     (Some (Error (''unsupported tgbotapi.Chattable type '' @ typeName)), st)"

text \<open>
  The idiom of the handlers around every dispatch:
  \<^verbatim>\<open>
  if err := sendMessage(bot, msg); err != nil {
      return fmt.Errorf("error sending message: %s", err)
  }
  \<close>
\<close>

definition sendOrError :: "Services \<Rightarrow> config \<Rightarrow> Chattable \<Rightarrow> BotState \<Rightarrow> error option \<times> BotState" where
  "sendOrError env cfg msg st =
     (case sendMessage env cfg msg st of
        (Some err, st') \<Rightarrow> (Some (Errorf ''error sending message: '' err), st')
      | (None, st') \<Rightarrow> (None, st'))"

text \<open>
  The words of the specification for a dispatch, to compare the dispatcher with. The
  messages for a list of chunks are one new message per chunk, in order, with the reply
  markup on the last one only. The plan of an edit is one delete of the original message
  followed by the messages for its chunks when the text makes more than one chunk, and
  the edit call alone otherwise.
\<close>

definition chunkMessages :: "int \<Rightarrow> string \<Rightarrow> InlineKeyboardMarkup option \<Rightarrow>
    string list \<Rightarrow> Chattable list" where
  "chunkMessages chatID parseMode replyMarkup chunks =
     (if chunks = [] then []
      else map (\<lambda>c. MessageConfig chatID c parseMode None) (butlast chunks)
           @ [MessageConfig chatID (last chunks) parseMode replyMarkup])"

definition editPlan :: "int \<Rightarrow> int \<Rightarrow> string \<Rightarrow> string \<Rightarrow> InlineKeyboardMarkup option \<Rightarrow>
    Chattable list" where
  "editPlan chatID messageID text parseMode replyMarkup =
     (if length (splitStringIntoChunks text) > 1
      then DeleteMessageConfig chatID messageID
           # chunkMessages chatID parseMode replyMarkup (splitStringIntoChunks text)
      else [EditMessageTextConfig chatID messageID text parseMode replyMarkup])"

text \<open>
  Sending a list of messages in order with the closure \<open>send\<close>, ending at the first
  one that returns an error.
\<close>

fun sendAll :: "Services \<Rightarrow> config \<Rightarrow> Chattable list \<Rightarrow> BotState \<Rightarrow> error option \<times> BotState" where
  "sendAll env cfg [] st = (None, st)"
| "sendAll env cfg (m # ms) st =
     (case send env cfg m st of
        (Some err, st') \<Rightarrow> (Some err, st')
      | (None, st') \<Rightarrow> sendAll env cfg ms st')"

section \<open>Template renderer\<close>

text \<open>
  \<open>applyTemplate\<close>: the template file is parsed at every call and then executed on the
  input; parsing and execution are the library's (\<open>ParseFiles\<close>, \<open>Execute\<close>).
\<close>

definition applyTemplate :: "Services \<Rightarrow> TemplateInput \<Rightarrow> string \<Rightarrow> BotState \<Rightarrow>
    (error + string) \<times> BotState" where
  "applyTemplate env inp templatePath st =
     (case ParseFiles env templatePath of
        Inl err \<Rightarrow> (Inl err, logPrintf ''error loading template file: %s'' [S (errorString err)] st)
      | Inr tmpl \<Rightarrow>
          (case Execute env tmpl inp of
             Inl err \<Rightarrow> (Inl err, logPrintf ''error executing template: %s'' [S (errorString err)] st)
           | Inr s \<Rightarrow> (Inr s, st)))"

section \<open>Menu builder\<close>

text \<open>
  The loop of \<open>newJobsKB\<close> over the job names, with the row \<open>r\<close> being filled, the rows
  \<open>kb\<close> finished so far and the state. A job whose alert query fails is logged and left
  out; a row is finished when its length equals \<open>cfg.KeyboardRows\<close>.
\<close>

fun jobsLoop :: "Services \<Rightarrow> config \<Rightarrow> string list \<Rightarrow> InlineKeyboardButton list \<Rightarrow>
    InlineKeyboardButton list list \<Rightarrow> BotState \<Rightarrow>
    InlineKeyboardButton list \<times> InlineKeyboardButton list list \<times> BotState" where
  "jobsLoop env cfg [] r kb st = (r, kb, st)"
| "jobsLoop env cfg (l # ls) r kb st =
     (case GetAlerts env [''job='' @ l] of
        Inl err \<Rightarrow>
          jobsLoop env cfg ls r kb
            (logPrintf ''error getting alerts for job '%s': %s'' [S l, S (errorString err)] st)
      | Inr al \<Rightarrow>
          (let btnLabel = (if length al = 0 then ButtonPrefixOK cfg @ l
                           else ButtonPrefixFail cfg @ l);
               (cacheID, st') =
                 newCacheEntry env \<lparr>Type = ''job'', Data = [''job_name'' \<mapsto> l]\<rparr> st;
               r' = r @ [NewInlineKeyboardButtonData btnLabel cacheID]
           in if int (length r') = KeyboardRows cfg
              then jobsLoop env cfg ls [] (kb @ [r']) st'
              else jobsLoop env cfg ls r' kb st'))"

definition newJobsKB :: "Services \<Rightarrow> config \<Rightarrow> BotState \<Rightarrow>
    (error + InlineKeyboardMarkup) \<times> BotState" where
  "newJobsKB env cfg st =
     (case LabelValues env ''job'' of
        Inl err \<Rightarrow> (Inl (Errorf ''error getting jobs: '' err), st)
      | Inr labels \<Rightarrow>
          (let (r, kb, st1) = jobsLoop env cfg labels [] [] st;
               kb1 = (if length r > 0 then kb @ [r] else kb);
               (cacheID, st2) = newCacheEntry env \<lparr>Type = ''close'', Data = Map.empty\<rparr> st1
           in (Inr \<lparr>InlineKeyboard =
                      kb1 @ [[NewInlineKeyboardButtonData ''Close menu'' cacheID]]\<rparr>, st2)))"

text \<open>
  The loop of \<open>newTargetsKB\<close> over the sorted targets. A target without a \<open>job\<close> or an
  \<open>instance\<close> label is logged; the \<open>continue\<close> of that branch is taken only when
  \<open>json.Marshal\<close> of the target fails, otherwise the loop body goes on with the target.
  \<^verbatim>\<open>
  if len(t.Labels["job"]) == 0 || len(t.Labels["instance"]) == 0 {
      b, err := json.Marshal(t)
      if err != nil {
          log.Printf("could not get labels [job, instance] for target '%v'", t)
          continue
      }
      log.Printf("could not get labels [job, instance] for target '%s'", string(b))
  }
  if string(t.Labels["job"]) != jobName {
      continue
  }
  \<close>
\<close>

fun targetsLoop :: "Services \<Rightarrow> config \<Rightarrow> string \<Rightarrow> ActiveTarget list \<Rightarrow>
    InlineKeyboardButton list \<Rightarrow> InlineKeyboardButton list list \<Rightarrow> BotState \<Rightarrow>
    InlineKeyboardButton list \<times> InlineKeyboardButton list list \<times> BotState" where
  "targetsLoop env cfg jobName [] r kb st = (r, kb, st)"
| "targetsLoop env cfg jobName (t # ts) r kb st =
     (let missing = (length (mapIndex (Labels t) ''job'') = 0
                     \<or> length (mapIndex (Labels t) ''instance'') = 0)
      in if missing \<and> isl (MarshalTarget env t)
         then targetsLoop env cfg jobName ts r kb
                (logPrintf (''could not get labels [job, instance] for target '%v'' @ [CHR 0x27]) [V t] st)
         else
           (let st0 = (if missing
                       then logPrintf (''could not get labels [job, instance] for target '%s'' @ [CHR 0x27])
                              [S (projr (MarshalTarget env t))] st
                       else st)
            in if mapIndex (Labels t) ''job'' \<noteq> jobName
               then targetsLoop env cfg jobName ts r kb st0
               else
                 (case GetAlerts env [''instance='' @ mapIndex (Labels t) ''instance''] of
                    Inl err \<Rightarrow>
                      targetsLoop env cfg jobName ts r kb
                        (logPrintf ''error getting alerts for target '%s': %s''
                           [S (mapIndex (Labels t) ''instance''), S (errorString err)] st0)
                  | Inr al \<Rightarrow>
                      (let btnLabel =
                             (if length al = 0
                              then ButtonPrefixOK cfg @ mapIndex (Labels t) ''instance''
                              else ButtonPrefixFail cfg @ mapIndex (Labels t) ''instance'');
                           (cacheID, st') =
                             newCacheEntry env
                               \<lparr>Type = ''target'',
                                Data = [''job_name'' \<mapsto> jobName,
                                        ''target_name'' \<mapsto> mapIndex (Labels t) ''instance'']\<rparr>
                               st0;
                           r' = r @ [NewInlineKeyboardButtonData btnLabel cacheID]
                       in if int (length r') = KeyboardRows cfg
                          then targetsLoop env cfg jobName ts [] (kb @ [r']) st'
                          else targetsLoop env cfg jobName ts r' kb st'))))"

text \<open>
  \<open>newTargetsKB\<close>: the inventory is sorted by \<open>sort.Slice\<close> (\<open>sortSlice\<close> of the
  surroundings) and then walked through by the loop.
\<close>

definition newTargetsKB :: "Services \<Rightarrow> config \<Rightarrow> string \<Rightarrow> BotState \<Rightarrow>
    (error + InlineKeyboardMarkup) \<times> BotState" where
  "newTargetsKB env cfg jobName st =
     (case Targets env of
        Inl err \<Rightarrow> (Inl (Errorf ''error getting targets data: '' err), st)
      | Inr active \<Rightarrow>
          (let sorted_targets = sortSlice env active;
               (r, kb, st1) = targetsLoop env cfg jobName sorted_targets [] [] st;
               kb1 = (if length r > 0 then kb @ [r] else kb)
           in (Inr \<lparr>InlineKeyboard = kb1\<rparr>, st1)))"

section \<open>Webhook ingress\<close>




section \<open>Update router: commands\<close>

text \<open>
  An inbound message as \<open>processMessage\<close> reads it: the sender (\<open>m.From.String()\<close>),
  the chat id, and what the chat library makes of the text (\<open>IsCommand\<close>, \<open>Command\<close>,
  \<open>CommandArguments\<close>).
\<close>

record Message =
  From :: string
  Chat :: int
  IsCommand :: bool
  Command :: string
  CommandArguments :: string

definition helpMsg :: string where
  "helpMsg = [newline] @ ''Available commands:'' @ [newline]
     @ ''/status - show alertmanager & bot status'' @ [newline]
     @ ''/alerts - show active alerts'' @ [newline]
     @ ''/targets - show alerts per target'' @ [newline]
     @ ''/silences - show active silences'' @ [newline]"

text \<open>The case \<open>"alerts"\<close> of \<open>processMessage\<close>. \<open>Split\<close> never returns an empty list,
  so \<open>argsArr[0]\<close> is its head.\<close>

definition alertsCommand :: "Services \<Rightarrow> config \<Rightarrow> Message \<Rightarrow> BotState \<Rightarrow> error option \<times> BotState" where
  "alertsCommand env cfg m st =
     (let args = CommandArguments m;
          argsArr = Split args (CHR '' '')
      in if length argsArr > 1
         then sendOrError env cfg (NewMessage (Chat m) ''Too many arguments.'') st
         else if length (hd argsArr) \<noteq> 0 \<and> hd argsArr \<noteq> ''json''
         then sendOrError env cfg (NewMessage (Chat m) ''Unknown argument.'') st
         else
           (case GetAlerts env [] of
              Inl err \<Rightarrow> (Some (Errorf ''error getting alerts: '' err), st)
            | Inr alerts \<Rightarrow>
                if length alerts = 0
                then sendOrError env cfg (NewMessage (Chat m) ''No active alerts found.'') st
                else if length (GettableAlertsTemplatePath cfg) = 0 \<or> hd argsArr = ''json''
                then
                  (case MarshalIndentAlerts env alerts of
                     Inl err \<Rightarrow> (Some (Errorf ''error marshalling alerts: '' err), st)
                   | Inr bytes \<Rightarrow> sendOrError env cfg (NewMessage (Chat m) bytes) st)
                else
                  (case applyTemplate env (InAlerts alerts) (GettableAlertsTemplatePath cfg) st of
                     (Inl err, st') \<Rightarrow> (Some (Errorf ''error applying template: '' err), st')
                   | (Inr s, st') \<Rightarrow>
                       sendOrError env cfg (MessageConfig (Chat m) s ModeHTML None) st')))"

text \<open>The case \<open>"targets"\<close>.\<close>

definition targetsCommand :: "Services \<Rightarrow> config \<Rightarrow> Message \<Rightarrow> BotState \<Rightarrow> error option \<times> BotState" where
  "targetsCommand env cfg m st =
     (case newJobsKB env cfg st of
        (Inl err, st') \<Rightarrow> (Some (Errorf ''error creating jobs menu: '' err), st')
      | (Inr kb, st') \<Rightarrow>
          sendOrError env cfg (MessageConfig (Chat m) ''Select job:'' [] (Some kb)) st')"

text \<open>The case \<open>"status"\<close>; versions and uptimes come from the services as text.\<close>

definition statusCommand :: "Services \<Rightarrow> config \<Rightarrow> Message \<Rightarrow> BotState \<Rightarrow> error option \<times> BotState" where
  "statusCommand env cfg m st =
     (case GetStatus env of
        Inl err \<Rightarrow> (Some (Errorf ''error getting alertmanager status: '' err), st)
      | Inr (aVersion, aUptime) \<Rightarrow>
          (case Buildinfo env of
             Inl err \<Rightarrow> (Some (Errorf ''error getting prometheus status: '' err), st)
           | Inr pVersion \<Rightarrow>
               (case Runtimeinfo env of
                  Inl err \<Rightarrow> (Some (Errorf ''error getting prometheus status: '' err), st)
                | Inr pUptime \<Rightarrow>
                    (let status = [newline] @ ''Alertmanager'' @ [newline]
                           @ ''Version: <b>'' @ aVersion @ ''</b>'' @ [newline]
                           @ ''Uptime: <b>'' @ aUptime @ ''</b>'' @ [newline] @ [newline]
                           @ ''Prometheus'' @ [newline]
                           @ ''Version: <b>'' @ pVersion @ ''</b>'' @ [newline]
                           @ ''Uptime: <b>'' @ pUptime @ ''</b>'' @ [newline] @ [newline]
                           @ ''Bot'' @ [newline]
                           @ ''Version: <b>'' @ versionString env @ ''</b>'' @ [newline]
                           @ ''Uptime: <b>'' @ botUptime env @ ''</b>'' @ [newline]
                           @ [CHR 0x09, CHR 0x09]
                     in sendOrError env cfg (MessageConfig (Chat m) status ModeHTML None) st))))"

text \<open>
  The case \<open>"silences"\<close>. The test that chooses raw JSON reads
  \<open>cfg.GettableAlertsTemplatePath\<close>; the template that is then applied is
  \<open>cfg.SilencesTemplatePath\<close>.
  \<^verbatim>\<open>
  if len(cfg.GettableAlertsTemplatePath) == 0 || argsArr[0] == "json" {
      bytes, err := json.MarshalIndent(activeSilences, "", "  ")
      ...
      return nil
  }
  s, err := applyTemplate(activeSilences, cfg.SilencesTemplatePath)
  \<close>
\<close>

definition silencesCommand :: "Services \<Rightarrow> config \<Rightarrow> Message \<Rightarrow> BotState \<Rightarrow> error option \<times> BotState" where
  "silencesCommand env cfg m st =
     (let args = CommandArguments m;
          argsArr = Split args (CHR '' '')
      in if length argsArr > 1
         then sendOrError env cfg (NewMessage (Chat m) ''Too many arguments.'') st
         else if length (hd argsArr) \<noteq> 0 \<and> hd argsArr \<noteq> ''json''
         then sendOrError env cfg (NewMessage (Chat m) ''Unknown argument.'') st
         else
           (case GetSilences env of
              Inl err \<Rightarrow> (Some (Errorf ''error gettnig silences: '' err), st)
            | Inr silences \<Rightarrow>
                (let activeSilences = filter (\<lambda>s. State s = ''active'') silences
                 in if length activeSilences = 0
                    then sendOrError env cfg (NewMessage (Chat m) ''No active silences found.'') st
                    else if length (GettableAlertsTemplatePath cfg) = 0 \<or> hd argsArr = ''json''
                    then
                      (case MarshalIndentSilences env activeSilences of
                         Inl err \<Rightarrow> (Some (Errorf ''error marshalling silences: '' err), st)
                       | Inr bytes \<Rightarrow> sendOrError env cfg (NewMessage (Chat m) bytes) st)
                    else
                      (case applyTemplate env (InSilences activeSilences)
                              (SilencesTemplatePath cfg) st of
                         (Inl err, st') \<Rightarrow> (Some (Errorf ''error applying template: '' err), st')
                       | (Inr s, st') \<Rightarrow>
                           sendOrError env cfg (MessageConfig (Chat m) s ModeHTML None) st'))))"

text \<open>
  \<open>processMessage\<close>: the sender must be one of \<open>cfg.Users\<close>, the message must be a
  command, and the command chooses the case.
\<close>

definition processMessage :: "Services \<Rightarrow> config \<Rightarrow> Message \<Rightarrow> BotState \<Rightarrow> error option \<times> BotState" where
  "processMessage env cfg m st =
     (if From m \<notin> set (Users cfg)
      then sendOrError env cfg (NewMessage (Chat m) ''I can't talk to you, sorry.'') st
      else if \<not> IsCommand m
      then sendOrError env cfg
             (NewMessage (Chat m) (''Message doesn't look like a command.'' @ [newline] @ helpMsg)) st
      else if Command m = ''help'' \<or> Command m = ''start''
      then sendOrError env cfg
             (MessageConfig (Chat m)
                (''Telegram Bot for Alertmanager'' @ [newline]
                 @ ''Version <b>'' @ versionString env @ ''</b>'' @ [newline] @ helpMsg)
                ModeHTML None) st
      else if Command m = ''alerts'' then alertsCommand env cfg m st
      else if Command m = ''targets'' then targetsCommand env cfg m st
      else if Command m = ''status'' then statusCommand env cfg m st
      else if Command m = ''silences'' then silencesCommand env cfg m st
      else sendOrError env cfg
             (NewMessage (Chat m) (''Unknown command.'' @ [newline] @ helpMsg)) st)"

section \<open>Example surroundings\<close>

text \<open>
  Concrete values for evaluating the model: services that answer every query with
  success and nothing to report, a chat platform that accepts every call, the default
  configuration with one user, and a bot that has done nothing yet.
\<close>

definition quietServices :: Services where
  "quietServices =
     \<lparr>botSend = (\<lambda>k m. Accepted),
      ksuidNew = (\<lambda>k. replicate (Suc k) (CHR ''k'')),
      GetAlerts = (\<lambda>filter. Inr []),
      GetSilences = Inr [],
      GetStatus = Inr (''0.27.0'', ''1h0m0s''),
      LabelValues = (\<lambda>label. Inr []),
      Targets = Inr [],
      Buildinfo = Inr ''2.51.0'',
      Runtimeinfo = Inr ''2h0m0s'',
      botUptime = ''3h0m0s'',
      versionString = ''devel'',
      MarshalIndentAlerts = (\<lambda>alerts. Inr ''[alerts]''),
      MarshalIndentSilences = (\<lambda>silences. Inr ''[silences]''),
      MarshalTarget = (\<lambda>t. Inr ''{target}''),
      Unmarshal = (\<lambda>body. Inl (Error ''unexpected end of JSON input'')),
      ParseInt = (\<lambda>s. Inl (Error ''invalid syntax'')),
      ParseFiles = (\<lambda>path. Inr path),
      Execute = (\<lambda>tmpl inp. Inr ''rendered''),
      sortSlice = sort_key (\<lambda>t. mapIndex (Labels t) ''instance'')\<rparr>"

definition defaultConfig :: config where
  "defaultConfig =
     \<lparr>KeyboardRows = 2,
      WebhookAlertsTemplatePath = [],
      GettableAlertsTemplatePath = [],
      SilencesTemplatePath = [],
      Users = [''admin''],
      ButtonPrefixOK = ''OK '',
      ButtonPrefixFail = ''FAIL '',
      SendMessageRetryCount = 3\<rparr>"

definition emptyBot :: BotState where
  "emptyBot = \<lparr>Cache = Map.empty, ksuids = 0, sent = [], logged = []\<rparr>"

section \<open>The chunker: lemmas\<close>

lemma Split_not_Nil: "Split s sep \<noteq> []"
  by (induction s) auto

lemma Split_no_sep: "sep \<notin> set s \<Longrightarrow> Split s sep = [s]"
  by (induction s) auto

lemma Split_append_sep:
  "sep \<notin> set xs \<Longrightarrow> Split (xs @ sep # ys) sep = xs # Split ys sep"
  by (induction xs) auto

lemma joinLines_Split: "joinLines (Split t newline) = newline # t"
proof (induction t)
  case Nil
  show ?case by (simp add: joinLines_def)
next
  case (Cons c cs)
  obtain x xs where S: "Split cs newline = x # xs"
    using Split_not_Nil [of cs newline] by (cases "Split cs newline") auto
  with Cons show ?case by (simp add: joinLines_def)
qed

lemma concat_chunkLoop:
  "concat (chunkLoop ls chunk chunks) = concat chunks @ chunk @ joinLines ls"
  by (induction ls arbitrary: chunk chunks) (auto simp: joinLines_def)

lemma chunkLoop_groups:
  "\<exists>gs'. chunkLoop ls (joinLines g) (map joinLines gs) = map joinLines gs'
         \<and> concat gs' = concat gs @ g @ ls"
proof (induction ls arbitrary: g gs)
  case Nil
  have "chunkLoop [] (joinLines g) (map joinLines gs) = map joinLines (gs @ [g])"
    by simp
  moreover have "concat (gs @ [g]) = concat gs @ g @ []"
    by simp
  ultimately show ?case by blast
next
  case (Cons s ss)
  show ?case
  proof (cases "length (joinLines g @ [newline] @ s) > maxMessageTextLength")
    case True
    from Cons [of "[s]" "gs @ [g]"] obtain gs' where
      "chunkLoop ss (joinLines [s]) (map joinLines (gs @ [g])) = map joinLines gs'"
      "concat gs' = concat (gs @ [g]) @ [s] @ ss"
      by blast
    moreover have "chunkLoop (s # ss) (joinLines g) (map joinLines gs)
        = chunkLoop ss (joinLines [s]) (map joinLines (gs @ [g]))"
      using True by (simp add: joinLines_def)
    ultimately have "chunkLoop (s # ss) (joinLines g) (map joinLines gs) = map joinLines gs'
        \<and> concat gs' = concat gs @ g @ s # ss"
      by simp
    then show ?thesis by blast
  next
    case False
    from Cons [of "g @ [s]" gs] obtain gs' where
      "chunkLoop ss (joinLines (g @ [s])) (map joinLines gs) = map joinLines gs'"
      "concat gs' = concat gs @ (g @ [s]) @ ss"
      by blast
    moreover have "chunkLoop (s # ss) (joinLines g) (map joinLines gs)
        = chunkLoop ss (joinLines (g @ [s])) (map joinLines gs)"
      using False by (simp add: joinLines_def)
    ultimately have "chunkLoop (s # ss) (joinLines g) (map joinLines gs) = map joinLines gs'
        \<and> concat gs' = concat gs @ g @ s # ss"
      by simp
    then show ?thesis by blast
  qed
qed

lemma chunkLoop_bound:
  assumes "set ls \<subseteq> L"
    and "\<forall>c\<in>set chunks. length c \<le> maxMessageTextLength \<or> (\<exists>l\<in>L. c = newline # l)"
    and "length chunk \<le> maxMessageTextLength \<or> (\<exists>l\<in>L. chunk = newline # l)"
  shows "\<forall>c\<in>set (chunkLoop ls chunk chunks).
           length c \<le> maxMessageTextLength \<or> (\<exists>l\<in>L. c = newline # l)"
  using assms
proof (induction ls arbitrary: chunk chunks)
  case Nil
  then show ?case by auto
next
  case (Cons s ss)
  from Cons.prems(1) have sL: "s \<in> L" and ssL: "set ss \<subseteq> L"
    by auto
  show ?case
  proof (cases "length (chunk @ [newline] @ s) > maxMessageTextLength")
    case True
    have "\<forall>c\<in>set (chunks @ [chunk]).
            length c \<le> maxMessageTextLength \<or> (\<exists>l\<in>L. c = newline # l)"
      using Cons.prems(2,3) by auto
    moreover have "length ([] @ [newline] @ s) \<le> maxMessageTextLength
        \<or> (\<exists>l\<in>L. [] @ [newline] @ s = newline # l)"
      using sL by auto
    ultimately have "\<forall>c\<in>set (chunkLoop ss ([] @ [newline] @ s) (chunks @ [chunk])).
            length c \<le> maxMessageTextLength \<or> (\<exists>l\<in>L. c = newline # l)"
      by (rule Cons.IH [OF ssL])
    with True show ?thesis by simp
  next
    case False
    then have "length (chunk @ [newline] @ s) \<le> maxMessageTextLength
        \<or> (\<exists>l\<in>L. chunk @ [newline] @ s = newline # l)"
      by simp
    with Cons.prems(2) have "\<forall>c\<in>set (chunkLoop ss (chunk @ [newline] @ s) chunks).
            length c \<le> maxMessageTextLength \<or> (\<exists>l\<in>L. c = newline # l)"
      by (rule Cons.IH [OF ssL])
    with False show ?thesis by simp
  qed
qed

lemma chunkLoop_not_Nil: "chunkLoop ls chunk chunks \<noteq> []"
  by (induction ls arbitrary: chunk chunks) auto

lemma splitStringIntoChunks_not_Nil: "splitStringIntoChunks text \<noteq> []"
  by (simp add: splitStringIntoChunks_def chunkLoop_not_Nil)

lemma splitStringIntoChunks_long_line:
  "newline \<notin> set s \<Longrightarrow> maxMessageTextLength \<le> length s \<Longrightarrow>
   splitStringIntoChunks s = [[], newline # s]"
  by (simp add: splitStringIntoChunks_def Split_no_sep)

lemma splitStringIntoChunks_short_line:
  "newline \<notin> set s \<Longrightarrow> length s < maxMessageTextLength \<Longrightarrow>
   splitStringIntoChunks s = [newline # s]"
  by (simp add: splitStringIntoChunks_def Split_no_sep)

lemma splitStringIntoChunks_two_lines:
  "newline \<notin> set a \<Longrightarrow> newline \<notin> set b \<Longrightarrow>
   length a < maxMessageTextLength \<Longrightarrow> length b < maxMessageTextLength \<Longrightarrow>
   maxMessageTextLength < length a + length b + 2 \<Longrightarrow>
   splitStringIntoChunks (a @ newline # b) = [newline # a, newline # b]"
  by (simp add: splitStringIntoChunks_def Split_append_sep Split_no_sep)

section \<open>The chunker: claims\<close>

text \<open>
  Claim C2, as the code has it. Concatenating the chunks in order gives one newline
  followed by the original text, for every text: the chunker removes nothing at a split
  point (the newline that ended a chunk's last line stays at the head of the next chunk)
  and it puts one newline in front of the first line.
\<close>

theorem chunks_concat_is_newline_text:
  "concat (splitStringIntoChunks text) = newline # text"
  by (simp add: splitStringIntoChunks_def concat_chunkLoop joinLines_Split)

text \<open>
  Claim C2 as stated fails at the text \<open>a\<close>. It gives the single chunk \<open>\na\<close>; with one
  chunk there is no split point, so neither plain concatenation nor putting newlines
  back between chunks returns \<open>a\<close>.
\<close>

theorem chunks_rejoin_counterexample:
  "splitStringIntoChunks ''a'' = [[newline, CHR ''a'']]
   \<and> concat (splitStringIntoChunks ''a'') \<noteq> ''a''
   \<and> rejoinChunks (splitStringIntoChunks ''a'') \<noteq> ''a''"
  by (simp add: splitStringIntoChunks_def maxMessageTextLength_def)

text \<open>
  Claim C3, as the code has it. The chunks are groups of whole consecutive lines of the
  text, in order and covering all of them, so every split is at a line boundary. A chunk
  is at most 4096 bytes long unless it is one single line behind its newline; hence when
  every line of the text is shorter than 4096 bytes, every chunk is at most 4096 bytes
  long.
\<close>

theorem chunks_line_boundaries_and_length:
  "(\<exists>gs. concat gs = Split text newline \<and> splitStringIntoChunks text = map joinLines gs)
   \<and> (\<forall>c\<in>set (splitStringIntoChunks text).
         length c \<le> maxMessageTextLength \<or> (\<exists>l\<in>set (Split text newline). c = newline # l))
   \<and> ((\<forall>l\<in>set (Split text newline). length l < maxMessageTextLength) \<longrightarrow>
        (\<forall>c\<in>set (splitStringIntoChunks text). length c \<le> maxMessageTextLength))"
proof -
  have groups: "\<exists>gs. concat gs = Split text newline
      \<and> splitStringIntoChunks text = map joinLines gs"
    using chunkLoop_groups [of "Split text newline" "[]" "[]"]
    by (auto simp: splitStringIntoChunks_def joinLines_def)
  have bound: "\<forall>c\<in>set (splitStringIntoChunks text).
      length c \<le> maxMessageTextLength \<or> (\<exists>l\<in>set (Split text newline). c = newline # l)"
    unfolding splitStringIntoChunks_def
    by (rule chunkLoop_bound) simp_all
  have "\<forall>c\<in>set (splitStringIntoChunks text). length c \<le> maxMessageTextLength"
    if short: "\<forall>l\<in>set (Split text newline). length l < maxMessageTextLength"
  proof
    fix c assume "c \<in> set (splitStringIntoChunks text)"
    with bound have "length c \<le> maxMessageTextLength
        \<or> (\<exists>l\<in>set (Split text newline). c = newline # l)"
      by blast
    with short show "length c \<le> maxMessageTextLength"
      by auto
  qed
  with groups bound show ?thesis by blast
qed

text \<open>
  A text of two lines of 3000 bytes each: both lines are short, the chunker makes two
  chunks of 3001 bytes, split at the line boundary.
\<close>

theorem chunks_line_boundaries_and_length_witness:
  "Split (replicate 3000 (CHR ''a'') @ newline # replicate 3000 (CHR ''b'')) newline
       = [replicate 3000 (CHR ''a''), replicate 3000 (CHR ''b'')]
   \<and> length (replicate 3000 (CHR ''a'')) < maxMessageTextLength
   \<and> length (replicate 3000 (CHR ''b'')) < maxMessageTextLength
   \<and> splitStringIntoChunks (replicate 3000 (CHR ''a'') @ newline # replicate 3000 (CHR ''b''))
       = [newline # replicate 3000 (CHR ''a''), newline # replicate 3000 (CHR ''b'')]
   \<and> length (newline # replicate 3000 (CHR ''a'')) \<le> maxMessageTextLength
   \<and> length (newline # replicate 3000 (CHR ''b'')) \<le> maxMessageTextLength"
proof -
  let ?t = "replicate 3000 (CHR ''a'') @ newline # replicate 3000 (CHR ''b'')"
  have S: "Split ?t newline = [replicate 3000 (CHR ''a''), replicate 3000 (CHR ''b'')]"
    by (simp add: Split_append_sep Split_no_sep newline_def)
  have short: "\<forall>l\<in>set (Split ?t newline). length l < maxMessageTextLength"
    by (simp add: S maxMessageTextLength_def)
  have C: "splitStringIntoChunks ?t
      = [newline # replicate 3000 (CHR ''a''), newline # replicate 3000 (CHR ''b'')]"
    by (rule splitStringIntoChunks_two_lines) (simp_all add: newline_def maxMessageTextLength_def)
  from chunks_line_boundaries_and_length [of ?t] short
  have "\<forall>c\<in>set (splitStringIntoChunks ?t). length c \<le> maxMessageTextLength"
    by blast
  then have "length (newline # replicate 3000 (CHR ''a'')) \<le> maxMessageTextLength"
    and "length (newline # replicate 3000 (CHR ''b'')) \<le> maxMessageTextLength"
    unfolding C by simp_all
  with S C show ?thesis by (simp add: maxMessageTextLength_def)
qed

text \<open>
  Claim C3 as stated fails at a text of one line of 4096 bytes: the line is never cut, so
  its chunk, the newline and the line, has 4097 bytes.
\<close>

theorem chunk_too_long_counterexample:
  "splitStringIntoChunks (replicate 4096 (CHR ''a''))
     = [[], newline # replicate 4096 (CHR ''a'')]
   \<and> maxMessageTextLength < length (newline # replicate 4096 (CHR ''a''))"
  by (simp add: splitStringIntoChunks_long_line newline_def maxMessageTextLength_def)

text \<open>
  Claim C9 at a text of one line of 4096 bytes. Before the line is put into its chunk the
  loop flushes the chunk built so far, which is still empty: the first chunk returned is
  the empty string and does not begin with a newline.
\<close>

theorem first_chunk_empty_on_long_first_line:
  "splitStringIntoChunks (replicate 4096 (CHR ''x'')) \<noteq> []
   \<and> hd (splitStringIntoChunks (replicate 4096 (CHR ''x''))) = []
   \<and> splitStringIntoChunks (replicate 4096 (CHR ''x''))
       = [[], newline # replicate 4096 (CHR ''x'')]"
  by (simp add: splitStringIntoChunks_long_line newline_def maxMessageTextLength_def)

section \<open>Session store: claims\<close>

text \<open>
  Claim C1. A callback \<open>cb\<close> is stored under a new token \<open>t\<close>. The first lookup of
  \<open>t\<close> by the callback router returns \<open>cb\<close> and removes the entry: the cache is then
  the cache from before the store, without \<open>t\<close>. A second lookup of \<open>t\<close> after the
  first finds nothing (\<open>ErrNotFound\<close>) and leaves the cache as it is.
\<close>

theorem take_after_put:
  "(let (t, st1) = newCacheEntry env cb st;
        (r1, st2) = takeCallback t st1;
        (r2, st3) = takeCallback t st2
    in r1 = Inr cb \<and> Cache st2 t = None \<and> Cache st2 = (Cache st)(t := None) \<and> r2 = Inl ErrNotFound \<and> Cache st3 = Cache st2)"
  by (simp add: newCacheEntry_def takeCallback_def cacheGet_def cacheSet_def cacheRemove_def
      logPrintf_def Let_def)

section \<open>Message dispatcher: lemmas\<close>

lemma sendLoop_accepted:
  "botSend env (length (sent st)) m = Accepted \<Longrightarrow>
   sendLoop env m (Suc n) err st = (None, st\<lparr>sent := sent st @ [m]\<rparr>)"
  by simp

lemma send_accepted:
  assumes "0 < SendMessageRetryCount cfg" and "\<forall>k m. botSend env k m = Accepted"
  shows "send env cfg m st = (None, st\<lparr>sent := sent st @ [m]\<rparr>)"
proof -
  from assms(1) obtain n where "nat (SendMessageRetryCount cfg) = Suc n"
    by (cases "nat (SendMessageRetryCount cfg)") auto
  with assms(2) show ?thesis
    by (simp add: send_def)
qed

lemma send_rejected:
  assumes "0 < SendMessageRetryCount cfg" and "botSend env (length (sent st)) m = Rejected e"
  shows "send env cfg m st = (Some e, st\<lparr>sent := sent st @ [m]\<rparr>)"
proof -
  from assms(1) obtain n where "nat (SendMessageRetryCount cfg) = Suc n"
    by (cases "nat (SendMessageRetryCount cfg)") auto
  with assms(2) show ?thesis
    by (simp add: send_def)
qed

lemma send_answer_accepted:
  assumes "0 < SendMessageRetryCount cfg" and "botSend env (length (sent st)) m = Accepted"
  shows "send env cfg m st = (None, st\<lparr>sent := sent st @ [m]\<rparr>)"
proof -
  from assms(1) obtain n where "nat (SendMessageRetryCount cfg) = Suc n"
    by (cases "nat (SendMessageRetryCount cfg)") auto
  with assms(2) show ?thesis
    by (simp add: send_def)
qed

lemma send_no_attempt:
  "SendMessageRetryCount cfg \<le> 0 \<Longrightarrow> send env cfg m st = (None, st)"
  by (simp add: send_def)

lemma sendChunks_sendAll:
  "sendChunks env cfg chatID parseMode replyMarkup chunks st
     = sendAll env cfg (chunkMessages chatID parseMode replyMarkup chunks) st"
proof (induction chunks arbitrary: st)
  case Nil
  show ?case by (simp add: chunkMessages_def)
next
  case (Cons c cs)
  show ?case
  proof (cases "cs = []")
    case True
    then show ?thesis
      by (simp add: chunkMessages_def split: prod.splits option.splits)
  next
    case False
    then have "chunkMessages chatID parseMode replyMarkup (c # cs)
        = MessageConfig chatID c parseMode None # chunkMessages chatID parseMode replyMarkup cs"
      by (simp add: chunkMessages_def)
    with False Cons.IH show ?thesis
      by (simp split: prod.splits option.splits)
  qed
qed

lemma sendMessage_new_sendAll:
  "sendMessage env cfg (MessageConfig chatID text parseMode replyMarkup) st
     = sendAll env cfg (chunkMessages chatID parseMode replyMarkup (splitStringIntoChunks text)) st"
  by (simp add: sendChunks_sendAll)

lemma sendMessage_edit_sendAll:
  "sendMessage env cfg (EditMessageTextConfig chatID messageID text parseMode replyMarkup) st
     = sendAll env cfg (editPlan chatID messageID text parseMode replyMarkup) st"
proof (cases "length (splitStringIntoChunks text) > 1")
  case True
  then show ?thesis
    by (simp add: editPlan_def Let_def sendChunks_sendAll split: prod.splits option.splits)
next
  case False
  then show ?thesis
    by (simp add: editPlan_def Let_def split: prod.splits option.splits)
qed

lemma sendAll_accepted:
  assumes "0 < SendMessageRetryCount cfg"
  shows "\<forall>i<length ms. botSend env (length (sent st) + i) (ms ! i) = Accepted \<Longrightarrow>
    sendAll env cfg ms st = (None, st\<lparr>sent := sent st @ ms\<rparr>)"
proof (induction ms arbitrary: st)
  case Nil
  show ?case by simp
next
  case (Cons m ms)
  from Cons.prems have first: "botSend env (length (sent st)) m = Accepted"
    by fastforce
  let ?st = "st\<lparr>sent := sent st @ [m]\<rparr>"
  have "\<forall>i<length ms. botSend env (length (sent ?st) + i) (ms ! i) = Accepted"
  proof (intro allI impI)
    fix i assume "i < length ms"
    with Cons.prems have "botSend env (length (sent st) + Suc i) ((m # ms) ! Suc i) = Accepted"
      by (metis Suc_less_eq length_Cons)
    then show "botSend env (length (sent ?st) + i) (ms ! i) = Accepted"
      by simp
  qed
  from Cons.IH [OF this] show ?case
    by (simp add: send_answer_accepted [OF assms first])
qed

lemma sendAll_rejected:
  assumes "0 < SendMessageRetryCount cfg"
  shows "j < length ms \<Longrightarrow>
    \<forall>i<j. botSend env (length (sent st) + i) (ms ! i) = Accepted \<Longrightarrow>
    botSend env (length (sent st) + j) (ms ! j) = Rejected e \<Longrightarrow>
    sendAll env cfg ms st = (Some e, st\<lparr>sent := sent st @ take (Suc j) ms\<rparr>)"
proof (induction ms arbitrary: st j)
  case Nil
  then show ?case by simp
next
  case (Cons m ms)
  show ?case
  proof (cases j)
    case 0
    with Cons.prems(3) have "botSend env (length (sent st)) m = Rejected e"
      by simp
    with 0 show ?thesis
      by (simp add: send_rejected [OF assms])
  next
    case (Suc j')
    with Cons.prems(2) have first: "botSend env (length (sent st)) m = Accepted"
      by fastforce
    let ?st = "st\<lparr>sent := sent st @ [m]\<rparr>"
    have j': "j' < length ms"
      using Cons.prems(1) Suc by simp
    have acc: "\<forall>i<j'. botSend env (length (sent ?st) + i) (ms ! i) = Accepted"
    proof (intro allI impI)
      fix i assume "i < j'"
      then have "Suc i < j" using Suc by simp
      with Cons.prems(2) have "botSend env (length (sent st) + Suc i) ((m # ms) ! Suc i) = Accepted"
        by blast
      then show "botSend env (length (sent ?st) + i) (ms ! i) = Accepted"
        by simp
    qed
    have rej: "botSend env (length (sent ?st) + j') (ms ! j') = Rejected e"
      using Cons.prems(3) Suc by simp
    from Cons.IH [OF j' acc rej] Suc show ?thesis
      by (simp add: send_answer_accepted [OF assms first])
  qed
qed

lemma sendAll_no_attempt:
  "SendMessageRetryCount cfg \<le> 0 \<Longrightarrow> sendAll env cfg ms st = (None, st)"
  by (induction ms) (simp_all add: send_no_attempt)


lemma sendMessage_new_no_attempt:
  "SendMessageRetryCount cfg \<le> 0 \<Longrightarrow>
   sendMessage env cfg (MessageConfig chatID text parseMode replyMarkup) st = (None, st)"
  unfolding sendMessage_new_sendAll by (rule sendAll_no_attempt)


lemma sendMessage_short_accepted:
  assumes "0 < SendMessageRetryCount cfg" and "\<forall>k m. botSend env k m = Accepted"
    and "newline \<notin> set text" and "length text < maxMessageTextLength"
  shows "sendMessage env cfg (MessageConfig chatID text parseMode replyMarkup) st
     = (None, st\<lparr>sent := sent st @ [MessageConfig chatID (newline # text) parseMode replyMarkup]\<rparr>)"
  by (simp add: splitStringIntoChunks_short_line [OF assms(3,4)] send_accepted [OF assms(1,2)])

lemma sendLoop_cong:
  assumes "botSend env' = botSend env"
  shows "sendLoop env' m n err st = sendLoop env m n err st"
proof (induction n arbitrary: err st)
  case 0
  show ?case by simp
next
  case (Suc n)
  show ?case
    by (cases "botSend env (length (sent st)) m") (simp_all add: assms Suc.IH)
qed

lemma send_cong:
  assumes "botSend env' = botSend env"
    and "SendMessageRetryCount cfg' = SendMessageRetryCount cfg"
  shows "send env' cfg' m st = send env cfg m st"
  unfolding send_def assms(2) by (rule sendLoop_cong [OF assms(1)])

lemma sendChunks_cong:
  assumes "botSend env' = botSend env"
    and "SendMessageRetryCount cfg' = SendMessageRetryCount cfg"
  shows "sendChunks env' cfg' chatID parseMode replyMarkup chunks st
     = sendChunks env cfg chatID parseMode replyMarkup chunks st"
proof (induction chunks arbitrary: st)
  case Nil
  show ?case by simp
next
  case (Cons c cs)
  have "send env' cfg' = send env cfg"
    by (intro ext) (rule send_cong [OF assms])
  with Cons show ?case
    by (simp split: prod.splits option.splits)
qed

lemma sendMessage_cong:
  assumes "botSend env' = botSend env"
    and "SendMessageRetryCount cfg' = SendMessageRetryCount cfg"
  shows "sendMessage env' cfg' msg st = sendMessage env cfg msg st"
proof -
  have s: "send env' cfg' = send env cfg"
    by (intro ext) (rule send_cong [OF assms])
  have c: "sendChunks env' cfg' = sendChunks env cfg"
    by (intro ext) (rule sendChunks_cong [OF assms])
  show ?thesis
    by (cases msg) (simp_all add: Let_def s c split: prod.splits option.splits)
qed

lemma sendOrError_cong:
  assumes "botSend env' = botSend env"
    and "SendMessageRetryCount cfg' = SendMessageRetryCount cfg"
  shows "sendOrError env' cfg' msg st = sendOrError env cfg msg st"
  unfolding sendOrError_def sendMessage_cong [OF assms] ..

section \<open>Message dispatcher: claims\<close>

text \<open>
  Claim C4, as the code has it. Let at least one attempt be configured. The plan of an
  edit is one delete of the original message and then one new message per chunk, in
  order, the reply markup on the last one only, when the text makes more than one chunk;
  it is the edit itself and nothing else when the text makes a single chunk. When the chat
  platform accepts the calls of the plan, the dispatcher issues exactly the plan. When the
  platform refuses one call of the plan with an error that is no flood error, having
  accepted the calls before it, the dispatcher issues the plan up to that call, stops
  there and returns the error. The last part of the statement writes the plan out.
\<close>

theorem edit_dispatch:
  assumes "0 < SendMessageRetryCount cfg"
  shows "((\<forall>i<length (editPlan chatID messageID text parseMode replyMarkup).
            botSend env (length (sent st) + i)
              (editPlan chatID messageID text parseMode replyMarkup ! i) = Accepted) \<longrightarrow>
          sendMessage env cfg (EditMessageTextConfig chatID messageID text parseMode replyMarkup) st
            = (None, st\<lparr>sent := sent st @ editPlan chatID messageID text parseMode replyMarkup\<rparr>))
     \<and> (\<forall>j e. j < length (editPlan chatID messageID text parseMode replyMarkup)
            \<and> (\<forall>i<j. botSend env (length (sent st) + i)
                   (editPlan chatID messageID text parseMode replyMarkup ! i) = Accepted)
            \<and> botSend env (length (sent st) + j)
                   (editPlan chatID messageID text parseMode replyMarkup ! j) = Rejected e \<longrightarrow>
          sendMessage env cfg (EditMessageTextConfig chatID messageID text parseMode replyMarkup) st
            = (Some e, st\<lparr>sent := sent st
                 @ take (Suc j) (editPlan chatID messageID text parseMode replyMarkup)\<rparr>))
     \<and> editPlan chatID messageID text parseMode replyMarkup =
         (if length (splitStringIntoChunks text) > 1
          then DeleteMessageConfig chatID messageID
               # map (\<lambda>c. MessageConfig chatID c parseMode None)
                   (butlast (splitStringIntoChunks text))
               @ [MessageConfig chatID (last (splitStringIntoChunks text)) parseMode replyMarkup]
          else [EditMessageTextConfig chatID messageID text parseMode replyMarkup])"
proof -
  have "editPlan chatID messageID text parseMode replyMarkup =
         (if length (splitStringIntoChunks text) > 1
          then DeleteMessageConfig chatID messageID
               # map (\<lambda>c. MessageConfig chatID c parseMode None)
                   (butlast (splitStringIntoChunks text))
               @ [MessageConfig chatID (last (splitStringIntoChunks text)) parseMode replyMarkup]
          else [EditMessageTextConfig chatID messageID text parseMode replyMarkup])"
    by (simp add: editPlan_def chunkMessages_def splitStringIntoChunks_not_Nil)
  then show ?thesis
    unfolding sendMessage_edit_sendAll
    using sendAll_accepted [OF assms] sendAll_rejected [OF assms]
    by blast
qed

text \<open>
  An edit with two lines of 3000 bytes makes two chunks: one delete, then two new
  messages with the keyboard on the second. An edit with a short text is sent as it is.
  When the platform refuses the second call of the first edit, the delete and the first
  chunk are issued and the dispatch ends with the error.
\<close>

theorem edit_dispatch_witness:
  "0 < SendMessageRetryCount defaultConfig
   \<and> editPlan 7 42 (replicate 3000 (CHR ''a'') @ newline # replicate 3000 (CHR ''b'')) ModeHTML
        (Some \<lparr>InlineKeyboard = [[\<lparr>Text = ''Go back'', CallbackData = ''k''\<rparr>]]\<rparr>)
      = [DeleteMessageConfig 7 42,
         MessageConfig 7 (newline # replicate 3000 (CHR ''a'')) ModeHTML None,
         MessageConfig 7 (newline # replicate 3000 (CHR ''b'')) ModeHTML
           (Some \<lparr>InlineKeyboard = [[\<lparr>Text = ''Go back'', CallbackData = ''k''\<rparr>]]\<rparr>)]
   \<and> sendMessage quietServices defaultConfig
        (EditMessageTextConfig 7 42 (replicate 3000 (CHR ''a'') @ newline # replicate 3000 (CHR ''b''))
           ModeHTML (Some \<lparr>InlineKeyboard = [[\<lparr>Text = ''Go back'', CallbackData = ''k''\<rparr>]]\<rparr>))
        emptyBot
      = (None, emptyBot\<lparr>sent :=
           [DeleteMessageConfig 7 42,
            MessageConfig 7 (newline # replicate 3000 (CHR ''a'')) ModeHTML None,
            MessageConfig 7 (newline # replicate 3000 (CHR ''b'')) ModeHTML
              (Some \<lparr>InlineKeyboard = [[\<lparr>Text = ''Go back'', CallbackData = ''k''\<rparr>]]\<rparr>)]\<rparr>)
   \<and> sendMessage quietServices defaultConfig
        (EditMessageTextConfig 7 42 ''fine'' ModeHTML None) emptyBot
      = (None, emptyBot\<lparr>sent := [EditMessageTextConfig 7 42 ''fine'' ModeHTML None]\<rparr>)
   \<and> sendMessage
        (quietServices\<lparr>botSend := \<lambda>k m. if k = 1 then Rejected (Error ''Bad Request'') else Accepted\<rparr>)
        defaultConfig
        (EditMessageTextConfig 7 42 (replicate 3000 (CHR ''a'') @ newline # replicate 3000 (CHR ''b''))
           ModeHTML (Some \<lparr>InlineKeyboard = [[\<lparr>Text = ''Go back'', CallbackData = ''k''\<rparr>]]\<rparr>))
        emptyBot
      = (Some (Error ''Bad Request''), emptyBot\<lparr>sent :=
           [DeleteMessageConfig 7 42,
            MessageConfig 7 (newline # replicate 3000 (CHR ''a'')) ModeHTML None]\<rparr>)"
proof -
  let ?t = "replicate 3000 (CHR ''a'') @ newline # replicate 3000 (CHR ''b'')"
  let ?kb = "Some \<lparr>InlineKeyboard = [[\<lparr>Text = ''Go back'', CallbackData = ''k''\<rparr>]]\<rparr>"
  let ?plan = "[DeleteMessageConfig 7 42,
         MessageConfig 7 (newline # replicate 3000 (CHR ''a'')) ModeHTML None,
         MessageConfig 7 (newline # replicate 3000 (CHR ''b'')) ModeHTML ?kb]"
  let ?env = "quietServices\<lparr>botSend := \<lambda>k m. if k = 1 then Rejected (Error ''Bad Request'') else Accepted\<rparr>"
  have r: "0 < SendMessageRetryCount defaultConfig"
    by (simp add: defaultConfig_def)
  have two: "splitStringIntoChunks ?t
      = [newline # replicate 3000 (CHR ''a''), newline # replicate 3000 (CHR ''b'')]"
    by (rule splitStringIntoChunks_two_lines) (simp_all add: newline_def maxMessageTextLength_def)
  have one: "splitStringIntoChunks ''fine'' = [newline # ''fine'']"
    by (rule splitStringIntoChunks_short_line) (simp_all add: newline_def maxMessageTextLength_def)
  have p2: "editPlan 7 42 ?t ModeHTML ?kb = ?plan"
    by (simp add: editPlan_def chunkMessages_def two)
  have p1: "editPlan 7 42 ''fine'' ModeHTML None = [EditMessageTextConfig 7 42 ''fine'' ModeHTML None]"
    by (simp add: editPlan_def one)
  have e: "sent emptyBot = []"
    by (simp add: emptyBot_def)
  have a2: "sendMessage quietServices defaultConfig (EditMessageTextConfig 7 42 ?t ModeHTML ?kb) emptyBot
      = (None, emptyBot\<lparr>sent := ?plan\<rparr>)"
    using conjunct1 [OF edit_dispatch [OF r, of 7 42 ?t ModeHTML ?kb quietServices emptyBot]]
    unfolding p2 by (simp add: e quietServices_def)
  have a1: "sendMessage quietServices defaultConfig (EditMessageTextConfig 7 42 ''fine'' ModeHTML None) emptyBot
      = (None, emptyBot\<lparr>sent := [EditMessageTextConfig 7 42 ''fine'' ModeHTML None]\<rparr>)"
    using conjunct1 [OF edit_dispatch [OF r, of 7 42 "''fine''" ModeHTML None quietServices emptyBot]]
    unfolding p1 by (simp add: e quietServices_def)
  have "(1::nat) < length ?plan
      \<and> (\<forall>i<1. botSend ?env (length (sent emptyBot) + i) (?plan ! i) = Accepted)
      \<and> botSend ?env (length (sent emptyBot) + 1) (?plan ! 1) = Rejected (Error ''Bad Request'')"
    by (simp add: e)
  with conjunct2 [OF edit_dispatch [OF r, of 7 42 ?t ModeHTML ?kb ?env emptyBot]]
  have "sendMessage ?env defaultConfig (EditMessageTextConfig 7 42 ?t ModeHTML ?kb) emptyBot
      = (Some (Error ''Bad Request''), emptyBot\<lparr>sent := sent emptyBot @ take (Suc 1) ?plan\<rparr>)"
    unfolding p2 by blast
  then have rej: "sendMessage ?env defaultConfig (EditMessageTextConfig 7 42 ?t ModeHTML ?kb) emptyBot
      = (Some (Error ''Bad Request''), emptyBot\<lparr>sent :=
           [DeleteMessageConfig 7 42,
            MessageConfig 7 (newline # replicate 3000 (CHR ''a'')) ModeHTML None]\<rparr>)"
    by (simp add: e)
  from r p2 a2 a1 rej show ?thesis
    by (simp only: simp_thms)
qed

text \<open>
  Claim C4 as stated fails in two ways. When the chat platform rejects the delete,
  \<open>sendMessage\<close> returns the error at once and none of the two chunks is sent. When the
  configured number of attempts is 0, the loop of \<open>send\<close> makes no call: an edit of one
  chunk issues nothing.
\<close>

theorem edit_dispatch_counterexample:
  "length (splitStringIntoChunks
       (replicate 3000 (CHR ''a'') @ newline # replicate 3000 (CHR ''b''))) = 2
   \<and> sendMessage (quietServices\<lparr>botSend := \<lambda>k m. Rejected (Error ''Bad Request'')\<rparr>) defaultConfig
        (EditMessageTextConfig 7 42 (replicate 3000 (CHR ''a'') @ newline # replicate 3000 (CHR ''b''))
           ModeHTML None)
        emptyBot
      = (Some (Error ''Bad Request''), emptyBot\<lparr>sent := [DeleteMessageConfig 7 42]\<rparr>)
   \<and> length (splitStringIntoChunks ''fine'') = 1
   \<and> sendMessage quietServices (defaultConfig\<lparr>SendMessageRetryCount := 0\<rparr>)
        (EditMessageTextConfig 7 42 ''fine'' ModeHTML None) emptyBot
      = (None, emptyBot)"
proof -
  have two: "splitStringIntoChunks (replicate 3000 (CHR ''a'') @ newline # replicate 3000 (CHR ''b''))
      = [newline # replicate 3000 (CHR ''a''), newline # replicate 3000 (CHR ''b'')]"
    by (rule splitStringIntoChunks_two_lines) (simp_all add: newline_def maxMessageTextLength_def)
  have one: "splitStringIntoChunks ''fine'' = [newline # ''fine'']"
    by (rule splitStringIntoChunks_short_line) (simp_all add: newline_def maxMessageTextLength_def)
  have d: "send (quietServices\<lparr>botSend := \<lambda>k m. Rejected (Error ''Bad Request'')\<rparr>) defaultConfig
        (DeleteMessageConfig 7 42) emptyBot
      = (Some (Error ''Bad Request''), emptyBot\<lparr>sent := sent emptyBot @ [DeleteMessageConfig 7 42]\<rparr>)"
    by (rule send_rejected) (simp_all add: defaultConfig_def)
  have z: "send quietServices (defaultConfig\<lparr>SendMessageRetryCount := 0\<rparr>)
        (EditMessageTextConfig 7 42 ''fine'' ModeHTML None) emptyBot = (None, emptyBot)"
    by (rule send_no_attempt) simp
  have e: "sent emptyBot = []"
    by (simp add: emptyBot_def)
  show ?thesis
    by (simp add: two one d z e)
qed

section \<open>Menu builder: lemmas\<close>

lemma jobsLoop_texts:
  "jobsLoop env cfg ls r kb st = (r', kb', st') \<Longrightarrow>
   map Text (concat kb' @ r') =
     map Text (concat kb @ r)
     @ map (\<lambda>l. (if projr (GetAlerts env [''job='' @ l]) = [] then ButtonPrefixOK cfg
                   else ButtonPrefixFail cfg) @ l)
         (filter (\<lambda>l. \<not> isl (GetAlerts env [''job='' @ l])) ls)"
proof (induction ls arbitrary: r kb st)
  case Nil
  then show ?case by simp
next
  case (Cons l ls)
  show ?case
  proof (cases "GetAlerts env [''job='' @ l]")
    case (Inl err)
    with Cons.prems Cons.IH show ?thesis by simp
  next
    case (Inr al)
    obtain cacheID st1 where E: "newCacheEntry env \<lparr>Type = ''job'', Data = [''job_name'' \<mapsto> l]\<rparr> st = (cacheID, st1)"
      by (cases "newCacheEntry env \<lparr>Type = ''job'', Data = [''job_name'' \<mapsto> l]\<rparr> st")
    let ?b = "NewInlineKeyboardButtonData
       ((if length al = 0 then ButtonPrefixOK cfg @ l else ButtonPrefixFail cfg @ l)) cacheID"
    show ?thesis
    proof (cases "int (length (r @ [?b])) = KeyboardRows cfg")
      case True
      with Cons.prems Inr E have "jobsLoop env cfg ls [] (kb @ [r @ [?b]]) st1 = (r', kb', st')"
        by simp
      from Cons.IH [OF this] Inr show ?thesis
        by (simp add: NewInlineKeyboardButtonData_def)
    next
      case False
      with Cons.prems Inr E have "jobsLoop env cfg ls (r @ [?b]) kb st1 = (r', kb', st')"
        by simp
      from Cons.IH [OF this] Inr show ?thesis
        by (simp add: NewInlineKeyboardButtonData_def)
    qed
  qed
qed

lemma jobsLoop_rows:
  assumes "1 \<le> KeyboardRows cfg"
  shows "jobsLoop env cfg ls r kb st = (r', kb', st') \<Longrightarrow>
   \<forall>row\<in>set kb. int (length row) \<le> KeyboardRows cfg \<Longrightarrow>
   int (length r) < KeyboardRows cfg \<Longrightarrow>
   (\<forall>row\<in>set kb'. int (length row) \<le> KeyboardRows cfg) \<and> int (length r') < KeyboardRows cfg"
proof (induction ls arbitrary: r kb st)
  case Nil
  then show ?case by simp
next
  case (Cons l ls)
  show ?case
  proof (cases "GetAlerts env [''job='' @ l]")
    case (Inl err)
    with Cons.prems Cons.IH show ?thesis by simp
  next
    case (Inr al)
    obtain cacheID st1 where E: "newCacheEntry env \<lparr>Type = ''job'', Data = [''job_name'' \<mapsto> l]\<rparr> st = (cacheID, st1)"
      by (cases "newCacheEntry env \<lparr>Type = ''job'', Data = [''job_name'' \<mapsto> l]\<rparr> st")
    let ?b = "NewInlineKeyboardButtonData
       ((if length al = 0 then ButtonPrefixOK cfg @ l else ButtonPrefixFail cfg @ l)) cacheID"
    show ?thesis
    proof (cases "int (length (r @ [?b])) = KeyboardRows cfg")
      case True
      with Cons.prems(1) Inr E have L: "jobsLoop env cfg ls [] (kb @ [r @ [?b]]) st1 = (r', kb', st')"
        by simp
      have "\<forall>row\<in>set (kb @ [r @ [?b]]). int (length row) \<le> KeyboardRows cfg"
        using Cons.prems(2) True by auto
      moreover have "int (length ([] :: InlineKeyboardButton list)) < KeyboardRows cfg"
        using assms by simp
      ultimately show ?thesis
        by (rule Cons.IH [OF L])
    next
      case False
      with Cons.prems(1) Inr E have L: "jobsLoop env cfg ls (r @ [?b]) kb st1 = (r', kb', st')"
        by simp
      have "int (length (r @ [?b])) < KeyboardRows cfg"
        using Cons.prems(3) False by simp
      with Cons.prems(2) show ?thesis
        by (rule Cons.IH [OF L])
    qed
  qed
qed

section \<open>Menu builder: claims\<close>

text \<open>
  Claim C5, as the code has it. Let the jobs menu be built with success from the job
  names \<open>labels\<close>. The last row of the keyboard is the one button \<open>Close menu\<close>,
  whose token is stored with the kind \<open>close\<close>. The buttons before it are, in order, one
  for every job name whose alert query did not fail: their number is the number of job
  names minus the number of failed queries, which for distinct job names is the number of
  distinct names minus the number of names whose query failed. The text of a job's button
  is the OK prefix followed by the name when the query returned no alert, and the problem
  prefix followed by the name otherwise. When the configured row size is at least 1, no
  row holds more buttons than the configured row size.
\<close>

theorem jobs_menu:
  assumes "newJobsKB env cfg st = (Inr kb, st')"
    and "LabelValues env ''job'' = Inr labels"
  shows "InlineKeyboard kb \<noteq> []
    \<and> map Text (concat (butlast (InlineKeyboard kb))) =
        map (\<lambda>l. (if projr (GetAlerts env [''job='' @ l]) = [] then ButtonPrefixOK cfg
                   else ButtonPrefixFail cfg) @ l)
          (filter (\<lambda>l. \<not> isl (GetAlerts env [''job='' @ l])) labels)
    \<and> length (concat (butlast (InlineKeyboard kb))) =
        length labels - length (filter (\<lambda>l. isl (GetAlerts env [''job='' @ l])) labels)
    \<and> (distinct labels \<longrightarrow>
        length (concat (butlast (InlineKeyboard kb))) =
          card (set labels) - card {l \<in> set labels. isl (GetAlerts env [''job='' @ l])})
    \<and> (\<exists>closeID. last (InlineKeyboard kb) = [\<lparr>Text = ''Close menu'', CallbackData = closeID\<rparr>]
          \<and> Cache st' closeID = Some \<lparr>Type = ''close'', Data = Map.empty\<rparr>)
    \<and> (1 \<le> KeyboardRows cfg \<longrightarrow>
        (\<forall>row\<in>set (InlineKeyboard kb). int (length row) \<le> KeyboardRows cfg))"
proof -
  obtain r kb0 st1 where L: "jobsLoop env cfg labels [] [] st = (r, kb0, st1)"
    by (cases "jobsLoop env cfg labels [] [] st") auto
  obtain closeID st2 where
    E: "newCacheEntry env \<lparr>Type = ''close'', Data = Map.empty\<rparr> st1 = (closeID, st2)"
    by (cases "newCacheEntry env \<lparr>Type = ''close'', Data = Map.empty\<rparr> st1")
  let ?kb1 = "if length r > 0 then kb0 @ [r] else kb0"
  let ?close = "\<lparr>Text = ''Close menu'', CallbackData = closeID\<rparr>"
  let ?failed = "\<lambda>l. isl (GetAlerts env [''job='' @ l])"
  from assms(1,2) L E have kb: "InlineKeyboard kb = ?kb1 @ [[?close]]" and st': "st' = st2"
    by (auto simp: newJobsKB_def NewInlineKeyboardButtonData_def)
  have flat: "concat ?kb1 = concat kb0 @ r"
    by simp
  have texts: "map Text (concat ?kb1) =
        map (\<lambda>l. (if projr (GetAlerts env [''job='' @ l]) = [] then ButtonPrefixOK cfg
                   else ButtonPrefixFail cfg) @ l)
          (filter (\<lambda>l. \<not> ?failed l) labels)"
    using jobsLoop_texts [OF L] unfolding flat by simp
  have "length (concat ?kb1) = length (filter (\<lambda>l. \<not> ?failed l) labels)"
    using arg_cong [OF texts, of length] by (simp only: length_map)
  moreover have "length (filter (\<lambda>l. \<not> ?failed l) labels)
      = length labels - length (filter ?failed labels)"
    using sum_length_filter_compl [of ?failed labels]
    by simp
  ultimately have count: "length (concat ?kb1) = length labels - length (filter ?failed labels)"
    by simp
  have cards: "length (concat ?kb1) = card (set labels) - card {l \<in> set labels. ?failed l}"
    if d: "distinct labels"
  proof -
    have "distinct (filter ?failed labels)"
      using d by simp
    then have "card (set (filter ?failed labels)) = length (filter ?failed labels)"
      by (rule distinct_card)
    moreover have "set (filter ?failed labels) = {l \<in> set labels. ?failed l}"
      by auto
    ultimately have "length (filter ?failed labels) = card {l \<in> set labels. ?failed l}"
      by (simp only:)
    moreover have "length labels = card (set labels)"
      using d by (simp only: distinct_card)
    ultimately show ?thesis
      using count by (simp only:)
  qed
  have cache: "Cache st' closeID = Some \<lparr>Type = ''close'', Data = Map.empty\<rparr>"
    using E st' by (auto simp: newCacheEntry_def cacheSet_def Let_def)
  have rows: "\<forall>row\<in>set (?kb1 @ [[?close]]). int (length row) \<le> KeyboardRows cfg"
    if k: "1 \<le> KeyboardRows cfg"
  proof -
    have "(\<forall>row\<in>set kb0. int (length row) \<le> KeyboardRows cfg) \<and> int (length r) < KeyboardRows cfg"
      using k by (intro jobsLoop_rows [OF k L]) simp_all
    then show ?thesis
      using k by auto
  qed
  from kb texts count cards cache rows show ?thesis
    by (simp only: butlast_snoc last_snoc) blast
qed

text \<open>
  Three distinct jobs with the default row size 2: \<open>api\<close> has no alert, \<open>db\<close> has
  one, and the query for \<open>web\<close> fails. The keyboard has the row of \<open>api\<close> and
  \<open>db\<close> and the row of the close button: two job buttons, three names less one failure.
\<close>

theorem jobs_menu_witness:
  "newJobsKB (quietServices\<lparr>LabelValues := \<lambda>label. Inr [''api'', ''db'', ''web''],
         GetAlerts := \<lambda>filter. if filter = [''job=db''] then Inr [GettableAlert [] []]
                       else if filter = [''job=web''] then Inl (Error ''timeout'') else Inr []\<rparr>)
       defaultConfig emptyBot
     = (Inr \<lparr>InlineKeyboard =
              [[\<lparr>Text = ''OK api'', CallbackData = ''k''\<rparr>,
                \<lparr>Text = ''FAIL db'', CallbackData = ''kk''\<rparr>],
               [\<lparr>Text = ''Close menu'', CallbackData = ''kkk''\<rparr>]]\<rparr>,
        \<lparr>Cache = [''k'' \<mapsto> \<lparr>Type = ''job'', Data = [''job_name'' \<mapsto> ''api'']\<rparr>,
                  ''kk'' \<mapsto> \<lparr>Type = ''job'', Data = [''job_name'' \<mapsto> ''db'']\<rparr>,
                  ''kkk'' \<mapsto> \<lparr>Type = ''close'', Data = Map.empty\<rparr>],
         ksuids = 3, sent = [],
         logged = [Printf ''error getting alerts for job '%s': %s'' [S ''web'', S ''timeout'']]\<rparr>)
   \<and> 1 \<le> KeyboardRows defaultConfig
   \<and> distinct [''api'', ''db'', ''web'']
   \<and> length (concat (butlast
        [[\<lparr>Text = ''OK api'', CallbackData = ''k''\<rparr>, \<lparr>Text = ''FAIL db'', CallbackData = ''kk''\<rparr>],
         [\<lparr>Text = ''Close menu'', CallbackData = ''kkk''\<rparr>]])) = 3 - 1
   \<and> card (set [''api'', ''db'', ''web''])
        - card {l \<in> set [''api'', ''db'', ''web''].
                 isl (GetAlerts (quietServices\<lparr>LabelValues := \<lambda>label. Inr [''api'', ''db'', ''web''],
                   GetAlerts := \<lambda>filter. if filter = [''job=db''] then Inr [GettableAlert [] []]
                       else if filter = [''job=web''] then Inl (Error ''timeout'') else Inr []\<rparr>)
                   [''job='' @ l])} = 2"
proof -
  let ?env = "quietServices\<lparr>LabelValues := \<lambda>label. Inr [''api'', ''db'', ''web''],
         GetAlerts := \<lambda>filter. if filter = [''job=db''] then Inr [GettableAlert [] []]
                       else if filter = [''job=web''] then Inl (Error ''timeout'') else Inr []\<rparr>"
  let ?kb = "\<lparr>InlineKeyboard =
              [[\<lparr>Text = ''OK api'', CallbackData = ''k''\<rparr>,
                \<lparr>Text = ''FAIL db'', CallbackData = ''kk''\<rparr>],
               [\<lparr>Text = ''Close menu'', CallbackData = ''kkk''\<rparr>]]\<rparr>"
  have run: "newJobsKB ?env defaultConfig emptyBot
     = (Inr ?kb,
        \<lparr>Cache = [''k'' \<mapsto> \<lparr>Type = ''job'', Data = [''job_name'' \<mapsto> ''api'']\<rparr>,
                  ''kk'' \<mapsto> \<lparr>Type = ''job'', Data = [''job_name'' \<mapsto> ''db'']\<rparr>,
                  ''kkk'' \<mapsto> \<lparr>Type = ''close'', Data = Map.empty\<rparr>],
         ksuids = 3, sent = [],
         logged = [Printf ''error getting alerts for job '%s': %s'' [S ''web'', S ''timeout'']]\<rparr>)"
    by (simp add: newJobsKB_def quietServices_def defaultConfig_def emptyBot_def
        newCacheEntry_def cacheSet_def NewInlineKeyboardButtonData_def logPrintf_def
        Errorf_def Let_def numeral_eq_Suc)
  have lv: "LabelValues ?env ''job'' = Inr [''api'', ''db'', ''web'']"
    by simp
  have k: "1 \<le> KeyboardRows defaultConfig"
    by (simp add: defaultConfig_def)
  have d: "distinct [''api'', ''db'', ''web'']"
    by simp
  from jobs_menu [OF run lv] d
  have "length (concat (butlast (InlineKeyboard ?kb)))
      = card (set [''api'', ''db'', ''web''])
        - card {l \<in> set [''api'', ''db'', ''web'']. isl (GetAlerts ?env [''job='' @ l])}"
    by blast
  then have c: "card (set [''api'', ''db'', ''web''])
        - card {l \<in> set [''api'', ''db'', ''web'']. isl (GetAlerts ?env [''job='' @ l])} = 2"
    by simp
  from run k d c show ?thesis
    by simp
qed

text \<open>
  Claim C5 as stated fails in two ways. For a configured row size of 0 the test
  \<open>len(r) == cfg.KeyboardRows\<close> never holds after a button is appended, so the job
  buttons stay in one row, which holds more buttons than 0. With both prefixes empty, as
  they are when the configuration does not set them, the button of a job with an active
  alert has the text of the OK prefix followed by the name: the OK prefix is not carried
  exactly when the query returned no alert.
\<close>

theorem jobs_menu_counterexample:
  "fst (newJobsKB (quietServices\<lparr>LabelValues := \<lambda>label. Inr [''api'']\<rparr>)
         (defaultConfig\<lparr>KeyboardRows := 0\<rparr>) emptyBot)
     = Inr \<lparr>InlineKeyboard =
              [[\<lparr>Text = ''OK api'', CallbackData = ''k''\<rparr>],
               [\<lparr>Text = ''Close menu'', CallbackData = ''kk''\<rparr>]]\<rparr>
   \<and> \<not> int (length [\<lparr>Text = ''OK api'', CallbackData = ''k''\<rparr>])
        \<le> KeyboardRows (defaultConfig\<lparr>KeyboardRows := 0\<rparr>)
   \<and> fst (newJobsKB
         (quietServices\<lparr>LabelValues := \<lambda>label. Inr [''db''],
            GetAlerts := \<lambda>filter. Inr [GettableAlert [] []]\<rparr>)
         (defaultConfig\<lparr>ButtonPrefixOK := [], ButtonPrefixFail := []\<rparr>) emptyBot)
     = Inr \<lparr>InlineKeyboard =
              [[\<lparr>Text = ''db'', CallbackData = ''k''\<rparr>],
               [\<lparr>Text = ''Close menu'', CallbackData = ''kk''\<rparr>]]\<rparr>
   \<and> GetAlerts (quietServices\<lparr>LabelValues := \<lambda>label. Inr [''db''],
            GetAlerts := \<lambda>filter. Inr [GettableAlert [] []]\<rparr>) [''job=db'']
       = Inr [GettableAlert [] []]
   \<and> ''db'' = ButtonPrefixOK (defaultConfig\<lparr>ButtonPrefixOK := [], ButtonPrefixFail := []\<rparr>) @ ''db''"
  by (simp add: newJobsKB_def quietServices_def defaultConfig_def emptyBot_def
      newCacheEntry_def cacheSet_def NewInlineKeyboardButtonData_def Let_def numeral_eq_Suc)

text \<open>
  Claim C7 at an inventory of one target that has the label \<open>job = node\<close> and no
  \<open>instance\<close> label, for the job \<open>node\<close>. The target is logged, but the loop goes
  on with it: the keyboard gets a button for it, with an empty instance name in its text
  and in the stored callback.
\<close>

theorem targets_menu_keeps_target_without_instance:
  "newTargetsKB
     (quietServices\<lparr>Targets := Inr [\<lparr>Labels = [''job'' \<mapsto> ''node''], ScrapeURL = ''http://h1:9100/metrics''\<rparr>]\<rparr>)
     defaultConfig ''node'' emptyBot
   = (Inr \<lparr>InlineKeyboard = [[\<lparr>Text = ''OK '', CallbackData = ''k''\<rparr>]]\<rparr>,
      \<lparr>Cache = [''k'' \<mapsto> \<lparr>Type = ''target'',
                            Data = [''job_name'' \<mapsto> ''node'', ''target_name'' \<mapsto> []]\<rparr>],
       ksuids = 1, sent = [],
       logged = [Printf (''could not get labels [job, instance] for target '%s'' @ [CHR 0x27])
                   [S ''{target}'']]\<rparr>)"
  by (simp add: newTargetsKB_def quietServices_def defaultConfig_def emptyBot_def mapIndex_def
      newCacheEntry_def cacheSet_def NewInlineKeyboardButtonData_def logPrintf_def Let_def)

section \<open>Webhook ingress: claims\<close>





section \<open>Update router: claims\<close>

text \<open>
  Claim C8 at a configuration with a silences template and no alerts template, for the
  command \<open>/silences\<close> without argument from a configured user and one active silence.
  The test for raw JSON reads the alerts template path, which is empty, so the reply is
  the JSON text; the silences template is not applied.
\<close>

theorem silences_ignores_silences_template:
  "processMessage
     (quietServices\<lparr>GetSilences := Inr [\<lparr>ID = ''s1'', State = ''active''\<rparr>]\<rparr>)
     (defaultConfig\<lparr>SilencesTemplatePath := ''silences.tmpl''\<rparr>)
     \<lparr>From = ''admin'', Chat = 5, IsCommand = True, Command = ''silences'', CommandArguments = []\<rparr>
     emptyBot
   = (None, emptyBot\<lparr>sent := [MessageConfig 5 (newline # ''[silences]'') [] None]\<rparr>)"
proof -
  let ?env = "quietServices\<lparr>GetSilences := Inr [\<lparr>ID = ''s1'', State = ''active''\<rparr>]\<rparr>"
  let ?cfg = "defaultConfig\<lparr>SilencesTemplatePath := ''silences.tmpl''\<rparr>"
  let ?m = "\<lparr>From = ''admin'', Chat = 5, IsCommand = True, Command = ''silences'',
             CommandArguments = []\<rparr>"
  have one: "splitStringIntoChunks ''[silences]'' = [newline # ''[silences]'']"
    by (rule splitStringIntoChunks_short_line) (simp_all add: newline_def maxMessageTextLength_def)
  have s: "send ?env ?cfg (MessageConfig 5 (newline # ''[silences]'') [] None) emptyBot
     = (None, emptyBot\<lparr>sent := sent emptyBot @ [MessageConfig 5 (newline # ''[silences]'') [] None]\<rparr>)"
    by (rule send_accepted) (simp_all add: defaultConfig_def quietServices_def)
  have e: "sent emptyBot = []"
    by (simp add: emptyBot_def)
  have reply: "sendOrError ?env ?cfg (NewMessage 5 ''[silences]'') emptyBot
     = (None, emptyBot\<lparr>sent := [MessageConfig 5 (newline # ''[silences]'') [] None]\<rparr>)"
    by (simp add: sendOrError_def NewMessage_def one s e)
  have users: "Users ?cfg = [''admin'']" and path: "GettableAlertsTemplatePath ?cfg = []"
    by (simp_all add: defaultConfig_def)
  have sil: "GetSilences ?env = Inr [\<lparr>ID = ''s1'', State = ''active''\<rparr>]"
    by simp
  have mar: "MarshalIndentSilences quietServices [\<lparr>ID = ''s1'', State = ''active''\<rparr>] = Inr ''[silences]''"
    by (simp add: quietServices_def)
  have "processMessage ?env ?cfg ?m emptyBot = silencesCommand ?env ?cfg ?m emptyBot"
    by (simp add: processMessage_def users)
  also have "\<dots> = sendOrError ?env ?cfg (NewMessage 5 ''[silences]'') emptyBot"
    by (simp add: silencesCommand_def Let_def path sil mar)
  finally show ?thesis
    by (simp only: reply)
qed

text \<open>
  Claim C10, as the code has it. Let \<open>/alerts\<close> come from a configured user with no
  argument or with \<open>json\<close>, and let the alert query return the empty list. Then
  \<open>processMessage\<close> is the dispatch of the one message \<open>No active alerts found.\<close> and
  nothing else, whatever the JSON marshaller, the template functions and the configured
  alerts template path are: none of them takes part in the result. When at least one
  attempt is configured and the chat platform accepts the call, exactly one message is
  sent; its text is a newline followed by the fixed text.
\<close>

theorem alerts_empty_reply:
  assumes "From m \<in> set (Users cfg)" and "IsCommand m" and "Command m = ''alerts''"
    and "CommandArguments m = [] \<or> CommandArguments m = ''json''"
    and "GetAlerts env [] = Inr []"
  shows "processMessage
           (env\<lparr>MarshalIndentAlerts := marshal, ParseFiles := parse, Execute := exec\<rparr>)
           (cfg\<lparr>GettableAlertsTemplatePath := templatePath\<rparr>) m st
         = sendOrError env cfg (NewMessage (Chat m) ''No active alerts found.'') st
    \<and> (0 < SendMessageRetryCount cfg
         \<and> botSend env (length (sent st))
              (MessageConfig (Chat m) (newline # ''No active alerts found.'') [] None) = Accepted
        \<longrightarrow> processMessage
           (env\<lparr>MarshalIndentAlerts := marshal, ParseFiles := parse, Execute := exec\<rparr>)
           (cfg\<lparr>GettableAlertsTemplatePath := templatePath\<rparr>) m st
         = (None, st\<lparr>sent := sent st
              @ [MessageConfig (Chat m) (newline # ''No active alerts found.'') [] None]\<rparr>))"
proof -
  let ?env = "env\<lparr>MarshalIndentAlerts := marshal, ParseFiles := parse, Execute := exec\<rparr>"
  let ?cfg = "cfg\<lparr>GettableAlertsTemplatePath := templatePath\<rparr>"
  let ?msg = "MessageConfig (Chat m) (newline # ''No active alerts found.'') [] None"
  from assms(4) have args: "Split (CommandArguments m) (CHR '' '') = [CommandArguments m]"
    by (auto simp: Split_no_sep)
  have "processMessage ?env ?cfg m st = alertsCommand ?env ?cfg m st"
    using assms(1-3) by (simp add: processMessage_def)
  also have "\<dots> = sendOrError ?env ?cfg (NewMessage (Chat m) ''No active alerts found.'') st"
    using assms(4,5) by (auto simp: alertsCommand_def Let_def args)
  also have "\<dots> = sendOrError env cfg (NewMessage (Chat m) ''No active alerts found.'') st"
    by (rule sendOrError_cong) simp_all
  finally have A: "processMessage ?env ?cfg m st
      = sendOrError env cfg (NewMessage (Chat m) ''No active alerts found.'') st" .
  have one: "splitStringIntoChunks ''No active alerts found.''
      = [newline # ''No active alerts found.'']"
    by (rule splitStringIntoChunks_short_line) (simp_all add: newline_def maxMessageTextLength_def)
  have "sendOrError env cfg (NewMessage (Chat m) ''No active alerts found.'') st
      = (None, st\<lparr>sent := sent st @ [?msg]\<rparr>)"
    if r: "0 < SendMessageRetryCount cfg" and a: "botSend env (length (sent st)) ?msg = Accepted"
    by (simp add: sendOrError_def NewMessage_def one send_answer_accepted [OF r a])
  with A show ?thesis
    by simp
qed

text \<open>
  \<open>/alerts json\<close> from the user \<open>admin\<close>, with an alerts template configured and no
  active alert: the one call to the chat platform carries the fixed text behind the
  newline that the chunker puts before every line.
\<close>

theorem alerts_empty_reply_witness:
  "From \<lparr>From = ''admin'', Chat = 5, IsCommand = True, Command = ''alerts'',
          CommandArguments = ''json''\<rparr> \<in> set (Users defaultConfig)
   \<and> GetAlerts quietServices [] = Inr []
   \<and> 0 < SendMessageRetryCount defaultConfig
   \<and> botSend quietServices (length (sent emptyBot))
        (MessageConfig 5 (newline # ''No active alerts found.'') [] None) = Accepted
   \<and> processMessage
        (quietServices\<lparr>MarshalIndentAlerts := \<lambda>alerts. Inr ''[]'',
           ParseFiles := \<lambda>path. Inr path, Execute := \<lambda>tmpl inp. Inr ''rendered''\<rparr>)
        (defaultConfig\<lparr>GettableAlertsTemplatePath := ''alerts.tmpl''\<rparr>)
        \<lparr>From = ''admin'', Chat = 5, IsCommand = True, Command = ''alerts'',
         CommandArguments = ''json''\<rparr>
        emptyBot
      = (None, emptyBot\<lparr>sent := [MessageConfig 5 (newline # ''No active alerts found.'') [] None]\<rparr>)"
proof -
  let ?m = "\<lparr>From = ''admin'', Chat = 5, IsCommand = True, Command = ''alerts'',
         CommandArguments = ''json''\<rparr>"
  have h1: "From ?m \<in> set (Users defaultConfig)"
    by (simp add: defaultConfig_def)
  have h2: "IsCommand ?m" and h3: "Command ?m = ''alerts''"
    and h4: "CommandArguments ?m = [] \<or> CommandArguments ?m = ''json''"
    by simp_all
  have h5: "GetAlerts quietServices [] = Inr []"
    by (simp add: quietServices_def)
  have r: "0 < SendMessageRetryCount defaultConfig"
    by (simp add: defaultConfig_def)
  have a: "botSend quietServices (length (sent emptyBot))
        (MessageConfig (Chat ?m) (newline # ''No active alerts found.'') [] None) = Accepted"
    by (simp add: quietServices_def)
  have e: "sent emptyBot = []"
    by (simp add: emptyBot_def)
  from conjunct2 [OF alerts_empty_reply [OF h1 h2 h3 h4 h5, where marshal = "\<lambda>alerts. Inr ''[]''"
      and parse = "\<lambda>path. Inr path" and exec = "\<lambda>tmpl inp. Inr ''rendered''"
      and templatePath = "''alerts.tmpl''" and st = emptyBot]] r a
  have "processMessage
        (quietServices\<lparr>MarshalIndentAlerts := \<lambda>alerts. Inr ''[]'',
           ParseFiles := \<lambda>path. Inr path, Execute := \<lambda>tmpl inp. Inr ''rendered''\<rparr>)
        (defaultConfig\<lparr>GettableAlertsTemplatePath := ''alerts.tmpl''\<rparr>) ?m emptyBot
      = (None, emptyBot\<lparr>sent := sent emptyBot
           @ [MessageConfig (Chat ?m) (newline # ''No active alerts found.'') [] None]\<rparr>)"
    by blast
  then have "processMessage
        (quietServices\<lparr>MarshalIndentAlerts := \<lambda>alerts. Inr ''[]'',
           ParseFiles := \<lambda>path. Inr path, Execute := \<lambda>tmpl inp. Inr ''rendered''\<rparr>)
        (defaultConfig\<lparr>GettableAlertsTemplatePath := ''alerts.tmpl''\<rparr>) ?m emptyBot
      = (None, emptyBot\<lparr>sent := [MessageConfig 5 (newline # ''No active alerts found.'') [] None]\<rparr>)"
    by (simp add: e)
  moreover from a have "botSend quietServices (length (sent emptyBot))
        (MessageConfig 5 (newline # ''No active alerts found.'') [] None) = Accepted"
    by simp
  ultimately show ?thesis
    using h1 h5 r by (simp only: simp_thms)
qed

text \<open>
  Claim C10 as stated fails in two ways. The text of the message sent is not exactly the
  fixed text: it has the chunker's newline before it. When the configured number of
  attempts is 0, nothing is sent.
\<close>

theorem alerts_empty_reply_counterexample:
  "processMessage quietServices defaultConfig
     \<lparr>From = ''admin'', Chat = 5, IsCommand = True, Command = ''alerts'', CommandArguments = []\<rparr>
     emptyBot
   = (None, emptyBot\<lparr>sent := [MessageConfig 5 (newline # ''No active alerts found.'') [] None]\<rparr>)
   \<and> newline # ''No active alerts found.'' \<noteq> ''No active alerts found.''
   \<and> processMessage quietServices (defaultConfig\<lparr>SendMessageRetryCount := 0\<rparr>)
     \<lparr>From = ''admin'', Chat = 5, IsCommand = True, Command = ''alerts'', CommandArguments = []\<rparr>
     emptyBot
   = (None, emptyBot)"
proof -
  let ?m = "\<lparr>From = ''admin'', Chat = 5, IsCommand = True, Command = ''alerts'',
         CommandArguments = []\<rparr>"
  let ?cfg0 = "defaultConfig\<lparr>SendMessageRetryCount := 0\<rparr>"
  have ga: "GetAlerts quietServices [] = Inr []"
    by (simp add: quietServices_def)
  have u: "Users defaultConfig = [''admin'']" "Users ?cfg0 = [''admin'']"
    by (simp_all add: defaultConfig_def)
  have r: "0 < SendMessageRetryCount defaultConfig"
    by (simp add: defaultConfig_def)
  have a: "\<forall>k m. botSend quietServices k m = Accepted"
    by (simp add: quietServices_def)
  have t: "newline \<notin> set ''No active alerts found.''"
    "length ''No active alerts found.'' < maxMessageTextLength"
    by (simp_all add: newline_def maxMessageTextLength_def)
  have e: "sent emptyBot = []"
    by (simp add: emptyBot_def)
  have z: "SendMessageRetryCount ?cfg0 \<le> 0"
    by simp
  have "processMessage quietServices defaultConfig ?m emptyBot
      = alertsCommand quietServices defaultConfig ?m emptyBot"
    by (simp add: processMessage_def u)
  also have "\<dots> = sendOrError quietServices defaultConfig
      (NewMessage 5 ''No active alerts found.'') emptyBot"
    by (simp add: alertsCommand_def Let_def ga)
  also have "\<dots> = (None, emptyBot\<lparr>sent :=
      [MessageConfig 5 (newline # ''No active alerts found.'') [] None]\<rparr>)"
    by (simp add: sendOrError_def NewMessage_def sendMessage_short_accepted [OF r a t] e
        del: sendMessage.simps)
  finally have A: "processMessage quietServices defaultConfig ?m emptyBot
      = (None, emptyBot\<lparr>sent := [MessageConfig 5 (newline # ''No active alerts found.'') [] None]\<rparr>)" .
  have "processMessage quietServices ?cfg0 ?m emptyBot
      = alertsCommand quietServices ?cfg0 ?m emptyBot"
    by (simp add: processMessage_def u)
  also have "\<dots> = sendOrError quietServices ?cfg0 (NewMessage 5 ''No active alerts found.'') emptyBot"
    by (simp add: alertsCommand_def Let_def ga)
  also have "\<dots> = (None, emptyBot)"
    by (simp add: sendOrError_def NewMessage_def sendMessage_new_no_attempt [OF z]
        del: sendMessage.simps)
  finally have B: "processMessage quietServices ?cfg0 ?m emptyBot = (None, emptyBot)" .
  have C: "newline # ''No active alerts found.'' \<noteq> ''No active alerts found.''"
    by simp
  from A B C show ?thesis
    by (simp only: simp_thms)
qed

end
